theory Spec2Isabelle
  imports Main "HOL-Library.Word"
begin


section \<open>Strings and characters\<close>

text \<open>
  Go strings are read rune by rune (\<^verbatim>\<open>for _, c := range path\<close>). A \<^typ>\<open>char\<close> of this
  development stands for the rune with that code point, so the development covers the
  strings whose runes are below U+0100; every path and descriptor of the documentation and
  of the tests is such a string.
\<close>

definition rune :: "char \<Rightarrow> nat" where
  "rune c = of_char c"

definition dquote :: char where
  "dquote = CHR 0x22"

definition bslash :: char where
  "bslash = CHR 0x5C"

text \<open>\<^verbatim>\<open>unicode.IsSpace\<close> on the runes below U+0100: tab, line feed, vertical tab, form feed,
  carriage return, space, U+0085 and U+00A0.\<close>

definition IsSpace :: "char \<Rightarrow> bool" where
  "IsSpace c = (rune c \<in> {9, 10, 11, 12, 13, 32, 133, 160})"

text \<open>\<^verbatim>\<open>strings.TrimSpace\<close>, \<^verbatim>\<open>strings.TrimPrefix\<close> and \<^verbatim>\<open>strings.TrimSuffix\<close>.\<close>

definition TrimSpace :: "string \<Rightarrow> string" where
  "TrimSpace s = rev (dropWhile IsSpace (rev (dropWhile IsSpace s)))"

definition TrimPrefix :: "string \<Rightarrow> string \<Rightarrow> string" where
  "TrimPrefix s p = (if take (length p) s = p then drop (length p) s else s)"

definition TrimSuffix :: "string \<Rightarrow> string \<Rightarrow> string" where
  "TrimSuffix s p = rev (TrimPrefix (rev s) (rev p))"

section \<open>Errors\<close>

text \<open>The error values of the package (path.go, lines 14 to 29, and defaults.go, line 317),
  the two errors built with \<^verbatim>\<open>fmt.Errorf\<close> from a kind name, and the wrapper that
  \<^verbatim>\<open>setDefaultsStruct\<close> puts around a descriptor error together with the field's name.\<close>

datatype error =
    errObjNotExists
  | errInvalidInput
  | errPathToShort
  | errPathToLong
  | errWrongElementType
  | errIsNotInterfaceable
  | errEndSquareBracketsOpen
  | errNesstedSquareBracketsNotPermitted
  | errLostCloseSquareBracket
  | errUnknownEscChar
  | errControlChar
  | errEscape2Chars
  | errSpaceInElement
  | errEndQuotsOpen
  | errSyntax
  | errUnsupportedKeyType
  | errUnsupportedFieldType
  | errFailedToParse string error

section \<open>The path tokenizer (path.go, parsePath)\<close>

text \<open>The local variables of the loop of \<^verbatim>\<open>parsePath\<close>.\<close>

record pstate =
  pathelements :: "string list"
  element :: string
  inEscapeMode :: bool
  inQuotes :: bool
  inSquareBrackets :: bool

definition flush :: "pstate \<Rightarrow> pstate" where
  "flush st = (if element st \<noteq> []
     then st\<lparr>pathelements := pathelements st @ [element st], element := []\<rparr>
     else st)"

definition append_char :: "pstate \<Rightarrow> char \<Rightarrow> pstate" where
  "append_char st c = st\<lparr>element := element st @ [c]\<rparr>"

text \<open>One round of the loop: the \<^verbatim>\<open>switch c\<close> of lines 51 to 150. \<open>Inl\<close> is the early
  return with an error.\<close>

definition step :: "pstate \<Rightarrow> char \<Rightarrow> error + pstate" where
  "step st c =
    (if c = CHR ''.'' \<or> c = CHR ''/'' then
       (if inEscapeMode st then Inr ((append_char st c)\<lparr>inEscapeMode := False\<rparr>)
        else if inQuotes st then Inr (append_char st c)
        else if inSquareBrackets st then Inl errEndSquareBracketsOpen
        else Inr (flush st))
     else if c = bslash then
       (if inEscapeMode st then Inr ((append_char st c)\<lparr>inEscapeMode := False\<rparr>)
        else if inQuotes st then Inr (st\<lparr>inEscapeMode := True\<rparr>)
        else if inSquareBrackets st then Inl errEndSquareBracketsOpen
        else Inr (flush st))
     else if c = CHR ''['' then
       (if inEscapeMode st then Inr ((append_char st c)\<lparr>inEscapeMode := False\<rparr>)
        else if inQuotes st then Inr (append_char st c)
        else if inSquareBrackets st then Inl errNesstedSquareBracketsNotPermitted
        else Inr ((flush st)\<lparr>inSquareBrackets := True\<rparr>))
     else if c = CHR '']'' then
       (if inEscapeMode st then Inr ((append_char st c)\<lparr>inEscapeMode := False\<rparr>)
        else if inQuotes st then Inr (append_char st c)
        else if inSquareBrackets st then Inr ((flush st)\<lparr>inSquareBrackets := False\<rparr>)
        else Inl errLostCloseSquareBracket)
     else if c = dquote then
       (if inEscapeMode st then Inr ((append_char st c)\<lparr>inEscapeMode := False\<rparr>)
        else if inQuotes st then Inr (st\<lparr>inQuotes := False\<rparr>)
        else Inr (st\<lparr>inQuotes := True\<rparr>))
     else
       (if inEscapeMode st then Inl errUnknownEscChar
        else if inQuotes st then
          (if rune c < 32 then Inl errControlChar else Inr (append_char st c))
        else
          (if rune c < 32 then Inl errControlChar
           else if IsSpace c then Inl errSpaceInElement
           else Inr (append_char st c))))"

text \<open>The loop over the runes of the path.\<close>

fun scan :: "pstate \<Rightarrow> string \<Rightarrow> error + pstate" where
  "scan st [] = Inr st"
| "scan st (c # cs) = (case step st c of Inl e \<Rightarrow> Inl e | Inr st' \<Rightarrow> scan st' cs)"

definition init_state :: pstate where
  "init_state = \<lparr>pathelements = [], element = [], inEscapeMode = False,
     inQuotes = False, inSquareBrackets = False\<rparr>"

text \<open>Lines 153 to 176: what is left open at the end of the input, the last element, and
  the removal of empty elements.\<close>

definition finish :: "pstate \<Rightarrow> error + string list" where
  "finish st =
    (if inEscapeMode st then Inl errEscape2Chars
     else if inQuotes st then Inl errEndQuotsOpen
     else if inSquareBrackets st then Inl errEndSquareBracketsOpen
     else Inr (filter (\<lambda>e. e \<noteq> []) (pathelements (flush st))))"

text \<open>Lines 34 to 37: the string the loop reads. The second \<^verbatim>\<open>TrimSpace\<close> only feeds the
  emptiness test; the loop runs over \<^verbatim>\<open>path\<close>.\<close>

definition strip_root :: "string \<Rightarrow> string" where
  "strip_root path = TrimPrefix (TrimPrefix (TrimSpace path) ''$..'') ''$.''"

definition parsePath :: "string \<Rightarrow> error + string list" where
  "parsePath path =
    (let p = strip_root path in
     if TrimSpace p = [] then Inr []
     else (case scan init_state p of Inl e \<Rightarrow> Inl e | Inr st \<Rightarrow> finish st))"

subsection \<open>Notions used to state the tokenizer's properties\<close>













text \<open>Where a position of the input lies, by the grammar's words: a backslash inside quotes
  escapes the next character, a double quote that is not escaped opens or closes a quoted
  section. The pair is (escape pending, inside quotes).\<close>

fun quoting :: "bool \<Rightarrow> bool \<Rightarrow> string \<Rightarrow> bool \<times> bool" where
  "quoting esc q [] = (esc, q)"
| "quoting esc q (c # cs) =
    (if esc then quoting False q cs
     else if c = bslash \<and> q then quoting True q cs
     else if c = dquote then quoting False (\<not> q) cs
     else quoting False q cs)"



section \<open>Go types and values as reflection sees them\<close>

text \<open>
  Both services work on \<^verbatim>\<open>reflect.Value\<close>s: a value together with its static type. The kinds
  are those of \<^verbatim>\<open>reflect.Kind\<close> that the package distinguishes; channels, functions and
  unsafe pointers are left out of the model.
\<close>

datatype kind =
    KInvalid | KBool
  | KInt | KInt8 | KInt16 | KInt32 | KInt64
  | KUint | KUint8 | KUint16 | KUint32 | KUint64 | KUintptr
  | KFloat32 | KFloat64 | KComplex64 | KComplex128
  | KArray | KInterface | KMap | KPtr | KSlice | KString | KStruct

text \<open>
  A struct type carries its name as \<^verbatim>\<open>Type.String()\<close> prints it and its fields; a field
  has a name, a type, and the values of the struct tag keys \<^verbatim>\<open>default\<close> and \<^verbatim>\<open>layout\<close>
  (empty when the key is absent, as \<^verbatim>\<open>Tag.Get\<close> returns it). \<open>TDuration\<close> is
  \<^verbatim>\<open>time.Duration\<close>, a named type of kind \<^verbatim>\<open>int64\<close>. Structs of the model have no embedded
  fields, and types are finite trees (no type refers to itself).
\<close>

datatype gtype =
    TBool | TString
  | TInt | TInt8 | TInt16 | TInt32 | TInt64 | TDuration
  | TUint | TUint8 | TUint16 | TUint32 | TUint64 | TUintptr
  | TFloat32 | TFloat64 | TComplex64 | TComplex128
  | TInterface
  | TPtr gtype
  | TSlice gtype
  | TArray nat gtype
  | TMap gtype gtype
  | TStruct string "struct_field list"
and struct_field = StructField (fname: string) (ftype: gtype) (fdefault: string) (flayout: string)

text \<open>
  Values. Integers are kept as mathematical numbers (the package does no arithmetic on
  them; their width is that of their type), floating-point numbers as their IEEE 754 bit
  pattern in 64 bits, complex numbers as two of these. A pointer is nil or holds its
  target: the graphs are trees, as the specification assumes. A slice is a header over a
  backing array: the header's data pointer is kept as the first argument of \<open>VSlice\<close>, next
  to the elements the array holds. A map is the list of its entries, with distinct keys;
  an interface value is nil or holds a value with its dynamic type.
\<close>

datatype gval =
    VBool bool
  | VString string
  | VInt int
  | VUint nat
  | VFloat "64 word"
  | VComplex "64 word" "64 word"
  | VPtr "gval option"
  | VSlice nat "gval list"
  | VArray "gval list"
  | VMap "(gval \<times> gval) list"
  | VStruct "gval list"
  | VIface "(gtype \<times> gval) option"

fun Kind :: "gtype \<Rightarrow> kind" where
  "Kind TBool = KBool"
| "Kind TString = KString"
| "Kind TInt = KInt"
| "Kind TInt8 = KInt8"
| "Kind TInt16 = KInt16"
| "Kind TInt32 = KInt32"
| "Kind TInt64 = KInt64"
| "Kind TDuration = KInt64"
| "Kind TUint = KUint"
| "Kind TUint8 = KUint8"
| "Kind TUint16 = KUint16"
| "Kind TUint32 = KUint32"
| "Kind TUint64 = KUint64"
| "Kind TUintptr = KUintptr"
| "Kind TFloat32 = KFloat32"
| "Kind TFloat64 = KFloat64"
| "Kind TComplex64 = KComplex64"
| "Kind TComplex128 = KComplex128"
| "Kind TInterface = KInterface"
| "Kind (TPtr t) = KPtr"
| "Kind (TSlice t) = KSlice"
| "Kind (TArray n t) = KArray"
| "Kind (TMap k t) = KMap"
| "Kind (TStruct n fs) = KStruct"

text \<open>\<^verbatim>\<open>Type.Elem()\<close>, the element type of a pointer, slice, array or map type, and the
  fields of a struct type.\<close>

fun Elem :: "gtype \<Rightarrow> gtype" where
  "Elem (TPtr t) = t"
| "Elem (TSlice t) = t"
| "Elem (TArray n t) = t"
| "Elem (TMap k t) = t"
| "Elem t = t"

fun Fields :: "gtype \<Rightarrow> struct_field list" where
  "Fields (TStruct n fs) = fs"
| "Fields t = []"

text \<open>What a value holds: the target of a pointer (\<open>None\<close> for nil, \<^verbatim>\<open>IsNil()\<close>), the fields
  of a struct value, the elements of a slice or an array (\<^verbatim>\<open>Index(i)\<close>), the entries of a
  map; and the same slice or array with other elements.\<close>

fun ptr_target :: "gval \<Rightarrow> gval option" where
  "ptr_target (VPtr p) = p"
| "ptr_target v = None"

fun struct_values :: "gval \<Rightarrow> gval list option" where
  "struct_values (VStruct vs) = Some vs"
| "struct_values v = None"

fun elements :: "gval \<Rightarrow> gval list option" where
  "elements (VSlice a vs) = Some vs"
| "elements (VArray vs) = Some vs"
| "elements v = None"

fun with_elements :: "gval \<Rightarrow> gval list \<Rightarrow> gval" where
  "with_elements (VSlice a vs) vs' = VSlice a vs'"
| "with_elements (VArray vs) vs' = VArray vs'"
| "with_elements v vs' = v"

fun entries :: "gval \<Rightarrow> (gval \<times> gval) list option" where
  "entries (VMap m) = Some m"
| "entries v = None"

text \<open>\<^verbatim>\<open>strconv.IntSize\<close>, the width of \<^verbatim>\<open>int\<close>, \<^verbatim>\<open>uint\<close> and \<^verbatim>\<open>uintptr\<close>: 64 on the
  64-bit platforms.\<close>

definition IntSize :: nat where
  "IntSize = 64"

text \<open>\<^verbatim>\<open>Type.Bits()\<close> on the numeric kinds.\<close>

fun Bits :: "gtype \<Rightarrow> nat" where
  "Bits TInt = IntSize"
| "Bits TInt8 = 8"
| "Bits TInt16 = 16"
| "Bits TInt32 = 32"
| "Bits TInt64 = 64"
| "Bits TDuration = 64"
| "Bits TUint = IntSize"
| "Bits TUint8 = 8"
| "Bits TUint16 = 16"
| "Bits TUint32 = 32"
| "Bits TUint64 = 64"
| "Bits TUintptr = IntSize"
| "Bits TFloat32 = 32"
| "Bits TFloat64 = 64"
| "Bits TComplex64 = 64"
| "Bits TComplex128 = 128"
| "Bits t = 0"

text \<open>The tests \<^verbatim>\<open>Type().String() == "time.Time"\<close> and \<^verbatim>\<open>Type().String() == "time.Duration"\<close>.
  A pointer type prints with a leading star, so only the struct type itself has the first
  name, and of the types of the model only \<open>TDuration\<close> has the second.\<close>

fun is_time_Time :: "gtype \<Rightarrow> bool" where
  "is_time_Time (TStruct n fs) = (n = ''time.Time'')"
| "is_time_Time t = False"

fun is_time_Duration :: "gtype \<Rightarrow> bool" where
  "is_time_Duration TDuration = True"
| "is_time_Duration t = False"

text \<open>The loops \<^verbatim>\<open>for t.Kind() == reflect.Ptr { t = t.Elem() }\<close> on a type.\<close>

fun strip_ptr :: "gtype \<Rightarrow> gtype" where
  "strip_ptr (TPtr t) = strip_ptr t"
| "strip_ptr t = t"

subsection \<open>The standard library's \<^verbatim>\<open>time.Time\<close>\<close>

text \<open>
  The declarations of package \<^verbatim>\<open>time\<close>: a \<^verbatim>\<open>Time\<close> is the struct of \<^verbatim>\<open>wall\<close>, \<^verbatim>\<open>ext\<close> and
  \<^verbatim>\<open>loc\<close> (the fields path.go reads by name), and \<^verbatim>\<open>loc\<close> points to a \<^verbatim>\<open>Location\<close>. None
  of the fields has a struct tag.
\<close>

definition time_zone :: gtype where
  "time_zone = TStruct ''time.zone''
     [StructField ''name'' TString [] [], StructField ''offset'' TInt [] [], StructField ''isDST'' TBool [] []]"

definition time_zoneTrans :: gtype where
  "time_zoneTrans = TStruct ''time.zoneTrans''
     [StructField ''when'' TInt64 [] [], StructField ''index'' TUint8 [] [],
      StructField ''isstd'' TBool [] [], StructField ''isutc'' TBool [] []]"

definition time_Location :: gtype where
  "time_Location = TStruct ''time.Location''
     [StructField ''name'' TString [] [], StructField ''zone'' (TSlice time_zone) [] [],
      StructField ''tx'' (TSlice time_zoneTrans) [] [], StructField ''extend'' TString [] [],
      StructField ''cacheStart'' TInt64 [] [], StructField ''cacheEnd'' TInt64 [] [],
      StructField ''cacheZone'' (TPtr time_zone) [] []]"

definition time_Time :: gtype where
  "time_Time = TStruct ''time.Time''
     [StructField ''wall'' TUint64 [] [], StructField ''ext'' TInt64 [] [],
      StructField ''loc'' (TPtr time_Location) [] []]"

subsection \<open>The standard library's parsers\<close>

text \<open>
  \<^verbatim>\<open>strconv.ParseBool\<close>, and \<^verbatim>\<open>strconv.ParseUint\<close>, \<^verbatim>\<open>strconv.ParseInt\<close> and \<^verbatim>\<open>strconv.Atoi\<close>
  in base 10, are written out: \<open>None\<close> is the returned error. In base 10 the integer parsers
  accept an optional sign (the signed ones) and decimal digits, and check the range of the
  given width.
\<close>

definition ParseBool :: "string \<Rightarrow> bool option" where
  "ParseBool s =
    (if s \<in> {''1'', ''t'', ''T'', ''TRUE'', ''true'', ''True''} then Some True
     else if s \<in> {''0'', ''f'', ''F'', ''FALSE'', ''false'', ''False''} then Some False
     else None)"

definition is_digit :: "char \<Rightarrow> bool" where
  "is_digit c = (48 \<le> rune c \<and> rune c \<le> 57)"

definition digits_val :: "string \<Rightarrow> nat" where
  "digits_val s = foldl (\<lambda>n c. 10 * n + (rune c - 48)) 0 s"

definition ParseUint :: "string \<Rightarrow> nat \<Rightarrow> nat option" where
  "ParseUint s bits =
    (if s \<noteq> [] \<and> list_all is_digit s \<and> digits_val s < 2 ^ bits
     then Some (digits_val s) else None)"

definition ParseInt :: "string \<Rightarrow> nat \<Rightarrow> int option" where
  "ParseInt s bits =
    (if s = [] then None
     else let neg = (hd s = CHR ''-'');
              ds = (if hd s = CHR ''+'' \<or> hd s = CHR ''-'' then tl s else s)
          in if ds = [] \<or> \<not> list_all is_digit ds then None
             else if \<not> neg \<and> digits_val ds \<ge> 2 ^ (bits - 1) then None
             else if neg \<and> digits_val ds > 2 ^ (bits - 1) then None
             else Some (if neg then - int (digits_val ds) else int (digits_val ds)))"

definition Atoi :: "string \<Rightarrow> int option" where
  "Atoi s = ParseInt s IntSize"

text \<open>
  The other library functions the package calls are parameters of the model:
  \<^verbatim>\<open>strconv.ParseFloat(s, bits)\<close>; the conversion of a \<^verbatim>\<open>float64\<close> to \<^verbatim>\<open>float32\<close>, which
  \<^verbatim>\<open>complex64(c)\<close> applies to both parts; \<^verbatim>\<open>time.Parse(layout, value)\<close>;
  \<^verbatim>\<open>time.ParseDuration\<close>; \<^verbatim>\<open>strconv.ParseUint(s, 0, strconv.IntSize)\<close> with its base
  prefixes; and the clock: \<open>time_Now env n\<close> is what the \<open>n\<close>-th call of \<^verbatim>\<open>time.Now()\<close>
  returns. The walk carries the number of clock readings made so far.
\<close>

record stdlib =
  ParseFloat :: "string \<Rightarrow> nat \<Rightarrow> 64 word option"
  to_float32 :: "64 word \<Rightarrow> 64 word"
  time_Parse :: "string \<Rightarrow> string \<Rightarrow> gval option"
  ParseDuration :: "string \<Rightarrow> int option"
  ParseUint_base0 :: "string \<Rightarrow> nat option"
  time_Now :: "nat \<Rightarrow> gval"

text \<open>\<^verbatim>\<open>strings.ToLower\<close> on the runes below U+0100.\<close>

definition to_lower :: "char \<Rightarrow> char" where
  "to_lower c =
    (if (65 \<le> rune c \<and> rune c \<le> 90) \<or> (192 \<le> rune c \<and> rune c \<le> 222 \<and> rune c \<noteq> 215)
     then char_of (rune c + 32) else c)"

definition ToLower :: "string \<Rightarrow> string" where
  "ToLower s = map to_lower s"

text \<open>\<^verbatim>\<open>strings.ReplaceAll(s, " ", "")\<close> and \<^verbatim>\<open>strings.Split(s, sep)\<close> for a separator of one
  character: \<open>n\<close> occurrences of the separator give \<open>n + 1\<close> parts.\<close>

definition remove_spaces :: "string \<Rightarrow> string" where
  "remove_spaces s = filter (\<lambda>c. c \<noteq> CHR '' '') s"

fun Split :: "string \<Rightarrow> char \<Rightarrow> string list" where
  "Split [] sep = [[]]"
| "Split (c # cs) sep =
    (if c = sep then [] # Split cs sep
     else (case Split cs sep of p # ps \<Rightarrow> (c # p) # ps | [] \<Rightarrow> [[c]]))"

section \<open>The default-descriptor parser (defaults.go, parseDefaultValue)\<close>

text \<open>How a call ends: it returns a value, returns an error, or panics.\<close>

datatype 'a outcome = Returns 'a | Fails error | Panics

text \<open>
  \<^verbatim>\<open>parseComplex\<close>: spaces are removed, the rest is split at every \<^verbatim>\<open>+\<close> and must have two
  parts; \<^verbatim>\<open>TrimSuffix\<close> takes one final \<^verbatim>\<open>i\<close> off the second part when there is one; both
  parts go through \<^verbatim>\<open>ParseFloat\<close> with 64 bits. \<open>None\<close> is the returned error (the caller
  replaces every error of \<^verbatim>\<open>parseComplex\<close> by \<^verbatim>\<open>errSyntax\<close>).
\<close>

definition parseComplex :: "stdlib \<Rightarrow> string \<Rightarrow> (64 word \<times> 64 word) option" where
  "parseComplex env s0 =
    (let s = remove_spaces s0 in
     if s = [] then None
     else let parts = Split s (CHR ''+'') in
       if length parts \<noteq> 2 then None
       else (case ParseFloat env (parts ! 0) 64 of
               None \<Rightarrow> None
             | Some realPart \<Rightarrow>
                 (case ParseFloat env (TrimSuffix (parts ! 1) ''i'') 64 of
                    None \<Rightarrow> None
                  | Some imagPart \<Rightarrow> Some (realPart, imagPart))))"

text \<open>The layouts of package \<^verbatim>\<open>time\<close> that the switch of lines 634 to 671 names.\<close>

definition time_Layout :: string where
  "time_Layout = ''01/02 03:04:05PM '' @ [CHR 0x27] @ ''06 -0700''"
definition time_ANSIC :: string where
  "time_ANSIC = ''Mon Jan _2 15:04:05 2006''"
definition time_UnixDate :: string where
  "time_UnixDate = ''Mon Jan _2 15:04:05 MST 2006''"
definition time_RubyDate :: string where
  "time_RubyDate = ''Mon Jan 02 15:04:05 -0700 2006''"
definition time_RFC822 :: string where
  "time_RFC822 = ''02 Jan 06 15:04 MST''"
definition time_RFC850 :: string where
  "time_RFC850 = ''Monday, 02-Jan-06 15:04:05 MST''"
definition time_RFC1123 :: string where
  "time_RFC1123 = ''Mon, 02 Jan 2006 15:04:05 MST''"
definition time_RFC1123Z :: string where
  "time_RFC1123Z = ''Mon, 02 Jan 2006 15:04:05 -0700''"
definition time_RFC3339 :: string where
  "time_RFC3339 = ''2006-01-02T15:04:05Z07:00''"
definition time_RFC3339Nano :: string where
  "time_RFC3339Nano = ''2006-01-02T15:04:05.999999999Z07:00''"
definition time_Kitchen :: string where
  "time_Kitchen = ''3:04PM''"
definition time_Stamp :: string where
  "time_Stamp = ''Jan _2 15:04:05''"
definition time_StampMilli :: string where
  "time_StampMilli = ''Jan _2 15:04:05.000''"
definition time_StampMicro :: string where
  "time_StampMicro = ''Jan _2 15:04:05.000000''"
definition time_StampNano :: string where
  "time_StampNano = ''Jan _2 15:04:05.000000000''"
definition time_DateTime :: string where
  "time_DateTime = ''2006-01-02 15:04:05''"
definition time_DateOnly :: string where
  "time_DateOnly = ''2006-01-02''"
definition time_TimeOnly :: string where
  "time_TimeOnly = ''15:04:05''"

text \<open>
  The switch of lines 634 to 671 on \<^verbatim>\<open>strings.ToLower(layoutTag)\<close>, case by case in the
  order of the source; when no case matches, \<^verbatim>\<open>layoutTag\<close> stays as it is. The case labels
  \<^verbatim>\<open>"RFC1123Z"\<close> and \<^verbatim>\<open>"rfc3339Nano"\<close> are compared as the source writes them.
\<close>

definition resolve_layout :: "string \<Rightarrow> string" where
  "resolve_layout layoutTag =
    (let l = ToLower layoutTag in
     if l = ''layout'' then time_Layout
     else if l = ''ansic'' then time_ANSIC
     else if l = ''unixdate'' then time_UnixDate
     else if l = ''rubydate'' then time_RubyDate
     else if l = ''rfc822'' then time_RFC822
     else if l = ''rfc850'' then time_RFC850
     else if l = ''rfc1123'' then time_RFC1123
     else if l = ''RFC1123Z'' then time_RFC1123Z
     else if l = ''rfc3339'' \<or> l = [] then time_RFC3339
     else if l = ''rfc3339Nano'' then time_RFC3339Nano
     else if l = ''kitchen'' then time_Kitchen
     else if l = ''stamp'' then time_Stamp
     else if l = ''stampmilli'' then time_StampMilli
     else if l = ''stampmicro'' then time_StampMicro
     else if l = ''stampnano'' then time_StampNano
     else if l = ''datetime'' then time_DateTime
     else if l = ''dateonly'' then time_DateOnly
     else if l = ''timeonly'' then time_TimeOnly
     else layoutTag)"

text \<open>
  \<^verbatim>\<open>reflect.Value.Set\<close> panics unless the value is assignable to the type of the place. A
  value of one of the types of this model is assignable to a place of a non-interface type
  exactly when the two types are the same; every value is assignable to \<^verbatim>\<open>interface{}\<close>,
  which then holds it with its type. \<open>None\<close> is the panic.
\<close>

definition Set_value :: "gtype \<Rightarrow> gtype \<times> gval \<Rightarrow> gval option" where
  "Set_value place_type x =
    (if place_type = fst x then Some (snd x)
     else if place_type = TInterface then Some (VIface (Some x))
     else None)"

text \<open>
  \<^verbatim>\<open>parseDefaultValue(defaultTag, layoutTag, fieldType)\<close>. The result is the
  \<^verbatim>\<open>reflect.Value\<close>, a value with its type, and the number of clock readings after the call.
  \<open>parse_by_kind\<close> is the switch on \<^verbatim>\<open>fieldType.Kind()\<close> of lines 560 to 684, with its
  cases in the order of the source; the first equation of \<open>parseDefaultValue\<close> is the
  pointer branch of lines 549 to 558.
\<close>

definition parse_by_kind ::
  "stdlib \<Rightarrow> nat \<Rightarrow> string \<Rightarrow> string \<Rightarrow> gtype \<Rightarrow> (gtype \<times> gval) outcome \<times> nat" where
  "parse_by_kind env clk defaultTag layoutTag fieldType =
    (let k = Kind fieldType in
     if k = KString then (Returns (TString, VString defaultTag), clk)
     else if k \<in> {KInt, KInt8, KInt16, KInt32, KInt64} then
       (if is_time_Duration fieldType then
          (case ParseDuration env defaultTag of
             None \<Rightarrow> (Fails errSyntax, clk)
           | Some dur \<Rightarrow> (Returns (TDuration, VInt dur), clk))
        else (case ParseInt defaultTag (Bits fieldType) of
                None \<Rightarrow> (Fails errSyntax, clk)
              | Some n \<Rightarrow> (Returns (fieldType, VInt n), clk)))
     else if k \<in> {KUint, KUint8, KUint16, KUint32, KUint64} then
       (case ParseUint defaultTag (Bits fieldType) of
          None \<Rightarrow> (Fails errSyntax, clk)
        | Some n \<Rightarrow> (Returns (fieldType, VUint n), clk))
     else if k \<in> {KFloat32, KFloat64} then
       (case ParseFloat env defaultTag (Bits fieldType) of
          None \<Rightarrow> (Fails errSyntax, clk)
        | Some x \<Rightarrow> (Returns (fieldType, VFloat x), clk))
     else if k = KComplex64 then
       (case parseComplex env defaultTag of
          None \<Rightarrow> (Fails errSyntax, clk)
        | Some (re, im) \<Rightarrow>
            (Returns (fieldType, VComplex (to_float32 env re) (to_float32 env im)), clk))
     else if k = KComplex128 then
       (case parseComplex env defaultTag of
          None \<Rightarrow> (Fails errSyntax, clk)
        | Some (re, im) \<Rightarrow> (Returns (fieldType, VComplex re im), clk))
     else if k = KBool then
       (case ParseBool defaultTag of
          None \<Rightarrow> (Fails errSyntax, clk)
        | Some b \<Rightarrow> (Returns (TBool, VBool b), clk))
     else if k = KUintptr then
       (case ParseUint_base0 env defaultTag of
          None \<Rightarrow> (Fails errSyntax, clk)
        | Some n \<Rightarrow> (Returns (TUint64, VUint n), clk))
     else if k = KStruct then
       (if is_time_Time fieldType then
          (if ToLower defaultTag = ''now'' then (Returns (time_Time, time_Now env clk), Suc clk)
           else (case time_Parse env (resolve_layout layoutTag) defaultTag of
                   None \<Rightarrow> (Fails errSyntax, clk)
                 | Some t \<Rightarrow> (Returns (time_Time, t), clk)))
        else (Fails errUnsupportedFieldType, clk))
     else (Fails errUnsupportedFieldType, clk))"

fun parseDefaultValue ::
  "stdlib \<Rightarrow> nat \<Rightarrow> string \<Rightarrow> string \<Rightarrow> gtype \<Rightarrow> (gtype \<times> gval) outcome \<times> nat" where
  "parseDefaultValue env clk defaultTag layoutTag (TPtr elemType) =
    (case parseDefaultValue env clk defaultTag layoutTag elemType of
       (Returns defaultValue, clk') \<Rightarrow>
         (case Set_value elemType defaultValue of
            Some v \<Rightarrow> (Returns (TPtr elemType, VPtr (Some v)), clk')
          | None \<Rightarrow> (Panics, clk'))
     | (Fails err, clk') \<Rightarrow> (Fails err, clk')
     | (Panics, clk') \<Rightarrow> (Panics, clk'))"
| "parseDefaultValue env clk defaultTag layoutTag fieldType =
    parse_by_kind env clk defaultTag layoutTag fieldType"

text \<open>\<^verbatim>\<open>setUnexportedField(field, value)\<close>: the \<^verbatim>\<open>Set\<close> on the field's own storage. The
  result is the field's new content, or \<open>None\<close> for the panic.\<close>

definition setUnexportedField :: "gtype \<Rightarrow> gtype \<times> gval \<Rightarrow> gval option" where
  "setUnexportedField field_type x = Set_value field_type x"

text \<open>
  \<^verbatim>\<open>getPtrInterface(field)\<close> takes one pointer off the field when it is one and returns a
  pointer to what it then has. \<^verbatim>\<open>Elem()\<close> of a nil pointer is the zero \<^verbatim>\<open>Value\<close>, and
  \<^verbatim>\<open>field.Type()\<close> panics on it: \<open>None\<close>. Otherwise the result is the place pointed to, with
  its type and content.
\<close>

fun getPtrInterface :: "gtype \<Rightarrow> gval \<Rightarrow> (gtype \<times> gval) option" where
  "getPtrInterface (TPtr t) v = (case v of VPtr (Some v') \<Rightarrow> Some (t, v') | _ \<Rightarrow> None)"
| "getPtrInterface t v = Some (t, v)"

text \<open>The content of the field after the place \<^verbatim>\<open>getPtrInterface\<close> pointed to has become
  \<open>v'\<close>: the target of the field's pointer, or the field itself.\<close>

fun put_back :: "gtype \<Rightarrow> gval \<Rightarrow> gval" where
  "put_back (TPtr t) v' = VPtr (Some v')"
| "put_back t v' = v'"

section \<open>The defaulting walk (defaults.go, SetDefaults)\<close>

text \<open>How a walk ends: it returns its \<^verbatim>\<open>err\<close> (\<open>None\<close> is \<^verbatim>\<open>nil\<close>), or it panics.\<close>

datatype status = Done "error option" | Panicked

text \<open>What one round of the loop over the fields of a struct leads to: the next round, with
  the value \<^verbatim>\<open>err\<close> then has, or the end of the call.\<close>

datatype flow = Next "error option" | Stop status

text \<open>
  Lines 393 to 399 and, word for word, lines 411 to 417: the descriptor is parsed against
  \<^verbatim>\<open>fieldValueType\<close>, the field's type with every pointer taken off, and the result is
  stored into the field, whose type is \<^verbatim>\<open>fieldValue.Type()\<close>. A descriptor error is wrapped
  with the field's name.
\<close>

definition store_default :: "stdlib \<Rightarrow> nat \<Rightarrow> struct_field \<Rightarrow> gval outcome \<times> nat" where
  "store_default env clk f =
    (case parseDefaultValue env clk (fdefault f) (flayout f) (strip_ptr (ftype f)) of
       (Fails err, clk') \<Rightarrow> (Fails (errFailedToParse (fname f) err), clk')
     | (Panics, clk') \<Rightarrow> (Panics, clk')
     | (Returns defaultValue, clk') \<Rightarrow>
         (case setUnexportedField (ftype f) defaultValue of
            None \<Rightarrow> (Panics, clk')
          | Some v' \<Rightarrow> (Returns v', clk')))"

text \<open>
  The loop over a map works on a copy of each value (\<^verbatim>\<open>elemPtr\<close>) and stores the copy back
  with \<^verbatim>\<open>SetMapIndex\<close>. When the walk of the copy ends with an error or a panic the copy is
  not stored; what the walk has written through a pointer, into the backing array of a
  slice or into a map is written all the same, since the copy shares these with the value
  in the map. \<open>discard_copy v w\<close> is the value in the map when the copy of \<open>v\<close> has become
  \<open>w\<close> and is dropped.
\<close>

fun discard_copy :: "gval \<Rightarrow> gval \<Rightarrow> gval"
  and discard_copies :: "gval list \<Rightarrow> gval list \<Rightarrow> gval list" where
  "discard_copy (VStruct vs) w = (case w of VStruct ws \<Rightarrow> VStruct (discard_copies vs ws) | _ \<Rightarrow> VStruct vs)"
| "discard_copy (VArray vs) w = (case w of VArray ws \<Rightarrow> VArray (discard_copies vs ws) | _ \<Rightarrow> VArray vs)"
| "discard_copy (VPtr p) w = w"
| "discard_copy (VSlice a xs) w = w"
| "discard_copy (VMap m) w = w"
| "discard_copy v w = v"
| "discard_copies [] ws = []"
| "discard_copies (v # vs) [] = v # vs"
| "discard_copies (v # vs) (w # ws) = discard_copy v w # discard_copies vs ws"

lemma getPtrInterface_size:
  "getPtrInterface t v = Some (t', v') \<Longrightarrow> size t' \<le> size t"
  by (cases t) (auto split: gval.splits option.splits)

lemma size_Elem:
  "Kind t = KPtr \<or> Kind t = KSlice \<or> Kind t = KArray \<or> Kind t = KMap \<Longrightarrow> size (Elem t) < size t"
  by (cases t) auto

lemma size_Fields:
  "Kind t = KStruct \<Longrightarrow> size_list size (Fields t) < size t"
  by (cases t) auto

lemma size_ftype: "size (ftype f) < size f"
  by (cases f) auto

text \<open>
  The functions of the walk. \<open>setDefaultsStruct env clk t v\<close> is \<^verbatim>\<open>setDefaultsStruct(ptr)\<close>
  for a \<^verbatim>\<open>ptr\<close> that points to a variable of type \<open>t\<close> with content \<open>v\<close>; it returns how the
  call ends, the content of the variable after the call, and the number of clock readings.
  Its first branch is the loop that reads the pointers away (a nil pointer ends the call
  with \<^verbatim>\<open>nil\<close>), the second one the test of the kind. \<open>setDefaultsSlice\<close> and
  \<open>setDefaultsMap\<close> are read the same way.

  \<open>descend\<close> is the switch of lines 464 to 474 and of lines 520 to 530 on the kind of the
  element's type without its pointers, with the call of \<^verbatim>\<open>getPtrInterface\<close> in each case;
  the loop over the fields makes the same calls for the same kinds (lines 401, 405, 407).

  \<open>field_step\<close> is the body of the loop over the fields (lines 375 to 419): \<^verbatim>\<open>err\<close> is the
  named result, which a recursive call overwrites and which nothing tests before the next
  field; a descriptor error returns at once. \<open>slice_loop\<close> and \<open>map_loop\<close> are the loops of
  lines 454 to 480 and 508 to 539, which return a non-nil \<^verbatim>\<open>err\<close> at once; the map's values
  are visited in the order of the list of entries.
\<close>

function setDefaultsStruct :: "stdlib \<Rightarrow> nat \<Rightarrow> gtype \<Rightarrow> gval \<Rightarrow> status \<times> gval \<times> nat"
  and setDefaultsSlice :: "stdlib \<Rightarrow> nat \<Rightarrow> gtype \<Rightarrow> gval \<Rightarrow> status \<times> gval \<times> nat"
  and setDefaultsMap :: "stdlib \<Rightarrow> nat \<Rightarrow> gtype \<Rightarrow> gval \<Rightarrow> status \<times> gval \<times> nat"
  and descend :: "stdlib \<Rightarrow> nat \<Rightarrow> gtype \<Rightarrow> gval \<Rightarrow> status \<times> gval \<times> nat"
  and field_step :: "stdlib \<Rightarrow> nat \<Rightarrow> struct_field \<Rightarrow> gval \<Rightarrow> error option \<Rightarrow> flow \<times> gval \<times> nat"
  and struct_loop ::
    "stdlib \<Rightarrow> nat \<Rightarrow> struct_field list \<Rightarrow> gval list \<Rightarrow> error option \<Rightarrow> status \<times> gval list \<times> nat"
  and slice_loop :: "stdlib \<Rightarrow> nat \<Rightarrow> gtype \<Rightarrow> gval list \<Rightarrow> status \<times> gval list \<times> nat"
  and map_loop ::
    "stdlib \<Rightarrow> nat \<Rightarrow> gtype \<Rightarrow> (gval \<times> gval) list \<Rightarrow> status \<times> (gval \<times> gval) list \<times> nat"
where
  "setDefaultsStruct env clk t v =
    (if Kind t = KPtr then
       (case ptr_target v of
          None \<Rightarrow> (Done None, v, clk)
        | Some v' \<Rightarrow>
            (case setDefaultsStruct env clk (Elem t) v' of
               (s, v'', clk') \<Rightarrow> (s, VPtr (Some v''), clk')))
     else if Kind t \<noteq> KStruct then (Done None, v, clk)
     else
       (case struct_values v of
          None \<Rightarrow> (Done None, v, clk)
        | Some vs \<Rightarrow>
            (case struct_loop env clk (Fields t) vs None of
               (s, vs', clk') \<Rightarrow> (s, VStruct vs', clk'))))"

| "setDefaultsSlice env clk t v =
    (if Kind t = KPtr then
       (case ptr_target v of
          None \<Rightarrow> (Done None, v, clk)
        | Some v' \<Rightarrow>
            (case setDefaultsSlice env clk (Elem t) v' of
               (s, v'', clk') \<Rightarrow> (s, VPtr (Some v''), clk')))
     else if Kind t \<noteq> KSlice \<and> Kind t \<noteq> KArray then (Done None, v, clk)
     else
       (case elements v of
          None \<Rightarrow> (Done None, v, clk)
        | Some vs \<Rightarrow>
            (case slice_loop env clk (Elem t) vs of
               (s, vs', clk') \<Rightarrow> (s, with_elements v vs', clk'))))"

| "setDefaultsMap env clk t v =
    (if Kind t = KPtr then
       (case ptr_target v of
          None \<Rightarrow> (Done None, v, clk)
        | Some v' \<Rightarrow>
            (case setDefaultsMap env clk (Elem t) v' of
               (s, v'', clk') \<Rightarrow> (s, VPtr (Some v''), clk')))
     else if Kind t \<noteq> KMap then (Done None, v, clk)
     else
       (case entries v of
          None \<Rightarrow> (Done None, v, clk)
        | Some m \<Rightarrow>
            (case map_loop env clk (Elem t) m of
               (s, m', clk') \<Rightarrow> (s, VMap m', clk'))))"

| "descend env clk t v =
    (let k = Kind (strip_ptr t) in
     if k = KStruct then
       (case getPtrInterface t v of
          None \<Rightarrow> (Panicked, v, clk)
        | Some (t', v') \<Rightarrow>
            (case setDefaultsStruct env clk t' v' of (s, v'', clk') \<Rightarrow> (s, put_back t v'', clk')))
     else if k = KSlice \<or> k = KArray then
       (case getPtrInterface t v of
          None \<Rightarrow> (Panicked, v, clk)
        | Some (t', v') \<Rightarrow>
            (case setDefaultsSlice env clk t' v' of (s, v'', clk') \<Rightarrow> (s, put_back t v'', clk')))
     else if k = KMap then
       (case getPtrInterface t v of
          None \<Rightarrow> (Panicked, v, clk)
        | Some (t', v') \<Rightarrow>
            (case setDefaultsMap env clk t' v' of (s, v'', clk') \<Rightarrow> (s, put_back t v'', clk')))
     else (Done None, v, clk))"

| "field_step env clk f v err =
    (let k = Kind (strip_ptr (ftype f)) in
     if k = KInvalid then (Next err, v, clk)
     else if (k = KStruct \<and> is_time_Time (ftype f) \<and> fdefault f \<noteq> [])
          \<or> (k \<notin> {KStruct, KSlice, KArray, KMap} \<and> fdefault f \<noteq> []) then
       (case store_default env clk f of
          (Returns v', clk') \<Rightarrow> (Next err, v', clk')
        | (Fails e, clk') \<Rightarrow> (Stop (Done (Some e)), v, clk')
        | (Panics, clk') \<Rightarrow> (Stop Panicked, v, clk'))
     else if k \<in> {KStruct, KSlice, KArray, KMap} then
       (case descend env clk (ftype f) v of
          (Done err', v', clk') \<Rightarrow> (Next err', v', clk')
        | (Panicked, v', clk') \<Rightarrow> (Stop Panicked, v', clk'))
     else (Next err, v, clk))"

| "struct_loop env clk [] vs err = (Done err, vs, clk)"
| "struct_loop env clk (f # fs) [] err = (Done err, [], clk)"
| "struct_loop env clk (f # fs) (v # vs) err =
    (case field_step env clk f v err of
       (Next err', v', clk') \<Rightarrow>
         (case struct_loop env clk' fs vs err' of (s, vs', clk'') \<Rightarrow> (s, v' # vs', clk''))
     | (Stop s, v', clk') \<Rightarrow> (s, v' # vs, clk'))"

| "slice_loop env clk et [] = (Done None, [], clk)"
| "slice_loop env clk et (v # vs) =
    (case descend env clk et v of
       (Done None, v', clk') \<Rightarrow>
         (case slice_loop env clk' et vs of (s, vs', clk'') \<Rightarrow> (s, v' # vs', clk''))
     | (s, v', clk') \<Rightarrow> (s, v' # vs, clk'))"

| "map_loop env clk vt [] = (Done None, [], clk)"
| "map_loop env clk vt ((key, v) # m) =
    (case descend env clk vt v of
       (Done None, v', clk') \<Rightarrow>
         (case map_loop env clk' vt m of (s, m', clk'') \<Rightarrow> (s, (key, v') # m', clk''))
     | (s, v', clk') \<Rightarrow> (s, (key, discard_copy v v') # m, clk'))"

  by pat_completeness auto

text \<open>Every call goes to a smaller type, from a loop to the walk of one element of the same
  type, or to the rest of a list.\<close>

termination setDefaultsStruct
proof (relation "inv_image (less_than <*lex*> less_than <*lex*> less_than)
     (case_sum
        (case_sum
           (case_sum (\<lambda>(env, clk, t, v). (size t, 0::nat, 0::nat))
                     (\<lambda>(env, clk, t, v). (size t, 0, 0)))
           (case_sum (\<lambda>(env, clk, t, v). (size t, 0, 0))
                     (\<lambda>(env, clk, t, v). (size t, 1, 0))))
        (case_sum
           (case_sum (\<lambda>(env, clk, f, v, err). (size f, 0, 0))
                     (\<lambda>(env, clk, fs, vs, err). (size_list size fs, 2, length fs)))
           (case_sum (\<lambda>(env, clk, t, vs). (size t, 2, length vs))
                     (\<lambda>(env, clk, t, m). (size t, 2, length m)))))")
qed (auto simp: size_Elem size_Fields size_ftype dest!: getPtrInterface_size)

declare setDefaultsStruct.simps [simp del] setDefaultsSlice.simps [simp del]
  setDefaultsMap.simps [simp del] descend.simps [simp del] field_step.simps [simp del]

text \<open>
  \<^verbatim>\<open>SetDefaults(ptr)\<close>: the argument is an interface value, nil or a value with its type.
  Anything but a pointer returns at once; otherwise the kind of the type without its
  pointers selects the function, which gets \<^verbatim>\<open>ptr\<close> itself.
\<close>

definition SetDefaults ::
  "stdlib \<Rightarrow> nat \<Rightarrow> (gtype \<times> gval) option \<Rightarrow> status \<times> (gtype \<times> gval) option \<times> nat" where
  "SetDefaults env clk ptr =
    (case ptr of
       None \<Rightarrow> (Done None, None, clk)
     | Some (t, v) \<Rightarrow>
         if Kind t \<noteq> KPtr then (Done None, ptr, clk)
         else let k = Kind (strip_ptr t) in
           if k = KStruct then
             (case setDefaultsStruct env clk t v of (s, v', clk') \<Rightarrow> (s, Some (t, v'), clk'))
           else if k = KSlice \<or> k = KArray then
             (case setDefaultsSlice env clk t v of (s, v', clk') \<Rightarrow> (s, Some (t, v'), clk'))
           else if k = KMap then
             (case setDefaultsMap env clk t v of (s, v', clk') \<Rightarrow> (s, Some (t, v'), clk'))
           else (Done None, ptr, clk))"

section \<open>The path resolver (path.go)\<close>

text \<open>
  A \<^verbatim>\<open>reflect.Value\<close> of the resolver: the zero \<^verbatim>\<open>Value\<close> (kind \<^verbatim>\<open>Invalid\<close>), or a value with
  its type and the read-only flag that reflection sets on everything reached through an
  unexported field (\<^verbatim>\<open>CanInterface()\<close> is false then).
\<close>

datatype rvalue = RInvalid | RValue gtype gval bool

text \<open>\<^verbatim>\<open>reflect.ValueOf(obj)\<close> for an interface value \<^verbatim>\<open>obj\<close>.\<close>

fun ValueOf :: "(gtype \<times> gval) option \<Rightarrow> rvalue" where
  "ValueOf None = RInvalid"
| "ValueOf (Some (t, v)) = RValue t v False"

text \<open>
  The loop that stands at the head of \<^verbatim>\<open>returnPathElement\<close>, \<^verbatim>\<open>getPathContainer\<close> and
  \<^verbatim>\<open>getInterfaceOfValue\<close>: while the value is a pointer, a nil pointer ends the loop
  (\<open>None\<close>; what is returned then differs between the three) and any other pointer is
  replaced by its target.
\<close>

function read_pointers :: "gtype \<Rightarrow> gval \<Rightarrow> (gtype \<times> gval) option" where
  "read_pointers t v =
    (if Kind t = KPtr then
       (case ptr_target v of None \<Rightarrow> None | Some v' \<Rightarrow> read_pointers (Elem t) v')
     else Some (t, v))"
  by pat_completeness auto

termination read_pointers
proof (relation "measure (\<lambda>(t, v). size t)")
qed (auto simp: size_Elem)

declare read_pointers.simps [simp del]

text \<open>A field is exported when its name starts with an upper-case letter (here: of the
  runes below U+0100).\<close>

definition IsExported :: "string \<Rightarrow> bool" where
  "IsExported name =
    (case name of
       [] \<Rightarrow> False
     | c # cs \<Rightarrow> (65 \<le> rune c \<and> rune c \<le> 90) \<or> (192 \<le> rune c \<and> rune c \<le> 222 \<and> rune c \<noteq> 215))"

text \<open>\<^verbatim>\<open>Value.FieldByName(name)\<close> on a struct without embedded fields: the field of that
  name with its declaration, \<open>None\<close> for the zero \<^verbatim>\<open>Value\<close>. The match is exact.\<close>

fun FieldByName :: "struct_field list \<Rightarrow> gval list \<Rightarrow> string \<Rightarrow> (struct_field \<times> gval) option" where
  "FieldByName [] vs name = None"
| "FieldByName (f # fs) [] name = None"
| "FieldByName (f # fs) (v # vs) name =
    (if fname f = name then Some (f, v) else FieldByName fs vs name)"

text \<open>\<^verbatim>\<open>Type.Key()\<close> of a map type.\<close>

fun Key :: "gtype \<Rightarrow> gtype" where
  "Key (TMap k t) = k"
| "Key t = t"

text \<open>
  Lines 263 to 298: the path element as a key of the map's key type. Floating-point keys
  are compared by their bit patterns.
\<close>

definition map_key :: "stdlib \<Rightarrow> gtype \<Rightarrow> string \<Rightarrow> error + gval" where
  "map_key env keyType e =
    (let k = Kind keyType in
     if k = KString then Inr (VString e)
     else if k \<in> {KInt, KInt8, KInt16, KInt32, KInt64} then
       (case ParseInt e (Bits keyType) of None \<Rightarrow> Inl errObjNotExists | Some n \<Rightarrow> Inr (VInt n))
     else if k \<in> {KUint, KUint8, KUint16, KUint32, KUint64} then
       (case ParseUint e (Bits keyType) of None \<Rightarrow> Inl errObjNotExists | Some n \<Rightarrow> Inr (VUint n))
     else if k \<in> {KFloat32, KFloat64} then
       (case ParseFloat env e (Bits keyType) of
          None \<Rightarrow> Inl errObjNotExists
        | Some x \<Rightarrow> Inr (VFloat x))
     else if k = KBool then
       (case ParseBool e of None \<Rightarrow> Inl errObjNotExists | Some b \<Rightarrow> Inr (VBool b))
     else Inl errUnsupportedKeyType)"

text \<open>
  The switch of lines 243 to 305: the element that one path element names in a struct, a
  slice or array, or a map, or the error. The element inherits the read-only flag, and a
  field reached by an unexported name sets it.
\<close>

definition locate :: "stdlib \<Rightarrow> gtype \<Rightarrow> gval \<Rightarrow> bool \<Rightarrow> string \<Rightarrow> error + rvalue" where
  "locate env t v ro e =
    (let k = Kind t in
     if k = KStruct then
       (case struct_values v of
          None \<Rightarrow> Inl errObjNotExists
        | Some vs \<Rightarrow>
            (case FieldByName (Fields t) vs e of
               None \<Rightarrow> Inl errObjNotExists
             | Some (f, fv) \<Rightarrow> Inr (RValue (ftype f) fv (ro \<or> \<not> IsExported (fname f)))))
     else if k = KSlice \<or> k = KArray then
       (case elements v of
          None \<Rightarrow> Inl errObjNotExists
        | Some vs \<Rightarrow>
            (case Atoi e of
               None \<Rightarrow> Inl errObjNotExists
             | Some index \<Rightarrow>
                 if index < 0 \<or> index \<ge> int (length vs) then Inl errObjNotExists
                 else Inr (RValue (Elem t) (vs ! nat index) ro)))
     else if k = KMap then
       (case map_key env (Key t) e of
          Inl err \<Rightarrow> Inl err
        | Inr key \<Rightarrow>
            (case entries v of
               None \<Rightarrow> Inl errObjNotExists
             | Some m \<Rightarrow>
                 (case map_of m key of
                    None \<Rightarrow> Inl errObjNotExists
                  | Some x \<Rightarrow> Inr (RValue (Elem t) x ro))))
     else Inl errWrongElementType)"

text \<open>\<^verbatim>\<open>createTimeFromWallExtLoc(wall, ext, loc)\<close>: a new \<^verbatim>\<open>time.Time\<close> with these three
  fields; \<^verbatim>\<open>loc\<close> is the pointer the original holds.\<close>

definition createTimeFromWallExtLoc :: "gval \<Rightarrow> gval \<Rightarrow> gval \<Rightarrow> gval" where
  "createTimeFromWallExtLoc wall ext loc = VStruct [wall, ext, loc]"

text \<open>\<^verbatim>\<open>Value.Interface()\<close>: the value with its type; for a value of kind \<^verbatim>\<open>Interface\<close>, what
  the interface holds.\<close>

fun Interface :: "gtype \<Rightarrow> gval \<Rightarrow> (gtype \<times> gval) option" where
  "Interface t (VIface x) = x"
| "Interface t v = Some (t, v)"

text \<open>
  \<^verbatim>\<open>getInterfaceOfValue\<close>. The result is the returned \<^verbatim>\<open>interface{}\<close>: \<open>None\<close> for \<^verbatim>\<open>nil\<close>,
  otherwise a value with its dynamic type. The cases are those of the switch of lines 333
  to 406; kinds \<^verbatim>\<open>Int8\<close> and \<^verbatim>\<open>Uintptr\<close> have no case there and fall through to
  \<^verbatim>\<open>CanInterface\<close>, as structs other than \<^verbatim>\<open>time.Time\<close> and slices other than byte slices do.
  For a byte slice \<^verbatim>\<open>Value.Bytes()\<close> returns the value's own slice header: the result has the
  data pointer of the slice in the graph. A struct named \<^verbatim>\<open>time.Time\<close> without the three
  fields would make \<^verbatim>\<open>Uint()\<close> panic on a zero \<^verbatim>\<open>Value\<close>.
\<close>

definition getInterfaceOfValue :: "rvalue \<Rightarrow> (gtype \<times> gval) option outcome" where
  "getInterfaceOfValue objValue =
    (case objValue of
       RInvalid \<Rightarrow> Returns None
     | RValue t0 v0 ro \<Rightarrow>
         (case read_pointers t0 v0 of
            None \<Rightarrow> Returns None
          | Some (t, v) \<Rightarrow>
              (let k = Kind t;
                   otherwise = (if \<not> ro then Returns (Interface t v) else Fails errIsNotInterfaceable)
               in
               if k = KInvalid then Returns None
               else if k = KString then Returns (Some (TString, v))
               else if k = KBool then Returns (Some (TBool, v))
               else if k = KInt then Returns (Some (TInt, v))
               else if k = KInt16 then Returns (Some (TInt16, v))
               else if k = KInt32 then Returns (Some (TInt32, v))
               else if k = KInt64 then
                 (if is_time_Duration t then Returns (Some (TDuration, v))
                  else Returns (Some (TInt64, v)))
               else if k = KUint then Returns (Some (TUint, v))
               else if k = KUint8 then Returns (Some (TUint8, v))
               else if k = KUint16 then Returns (Some (TUint16, v))
               else if k = KUint32 then Returns (Some (TUint32, v))
               else if k = KUint64 then Returns (Some (TUint64, v))
               else if k = KFloat32 then Returns (Some (TFloat32, v))
               else if k = KFloat64 then Returns (Some (TFloat64, v))
               else if k = KComplex64 then Returns (Some (TComplex64, v))
               else if k = KComplex128 then Returns (Some (TComplex128, v))
               else if k = KStruct \<and> is_time_Time t then
                 (case struct_values v of
                    None \<Rightarrow> Panics
                  | Some vs \<Rightarrow>
                      (case (FieldByName (Fields t) vs ''wall'', FieldByName (Fields t) vs ''ext'',
                             FieldByName (Fields t) vs ''loc'') of
                         (Some (fw, wall), Some (fe, ext), Some (fl, loc)) \<Rightarrow>
                           Returns (Some (time_Time, createTimeFromWallExtLoc wall ext loc))
                       | _ \<Rightarrow> Panics))
               else if k = KSlice \<and> Kind (Elem t) = KUint8 then Returns (Some (TSlice TUint8, v))
               else otherwise)))"

text \<open>
  \<^verbatim>\<open>returnPathElement\<close> and \<^verbatim>\<open>getPathContainer\<close>. In \<^verbatim>\<open>getPathContainer\<close> the test of
  line 229 is written as it stands in the source (\<^verbatim>\<open>len(pathelements) > 0\<close>); \<open>elems\<close>
  is \<^verbatim>\<open>pathelements\<close>.
\<close>

function returnPathElement :: "stdlib \<Rightarrow> rvalue \<Rightarrow> string list \<Rightarrow> (gtype \<times> gval) option outcome"
  and getPathContainer :: "stdlib \<Rightarrow> rvalue \<Rightarrow> string list \<Rightarrow> (gtype \<times> gval) option outcome"
where
  "returnPathElement env objValue elems =
    (case objValue of
       RInvalid \<Rightarrow>
         (if length elems = 0 then getInterfaceOfValue RInvalid else Fails errPathToLong)
     | RValue t0 v0 ro \<Rightarrow>
         (case read_pointers t0 v0 of
            None \<Rightarrow> (if length elems = 0 then Returns None else Fails errPathToLong)
          | Some (t, v) \<Rightarrow>
              if length elems = 0 then getInterfaceOfValue (RValue t v ro)
              else if Kind t \<in> {KStruct, KSlice, KArray, KMap}
                then getPathContainer env (RValue t v ro) elems
              else Fails errPathToLong))"
| "getPathContainer env objValue elems =
    (if length elems = 0 then Fails errPathToShort
     else
       (case objValue of
          RInvalid \<Rightarrow> Fails errWrongElementType
        | RValue t0 v0 ro \<Rightarrow>
            (case read_pointers t0 v0 of
               None \<Rightarrow> (if length elems > 0 then Returns None else Fails errPathToLong)
             | Some (t, v) \<Rightarrow>
                 (case locate env t v ro (hd elems) of
                    Inl err \<Rightarrow> Fails err
                  | Inr elemValue \<Rightarrow>
                      if length elems > 1
                        then returnPathElement env elemValue (tl elems)
                      else getInterfaceOfValue elemValue))))"
  by pat_completeness auto

termination returnPathElement
proof (relation "inv_image (less_than <*lex*> less_than)
     (case_sum (\<lambda>(env, objValue, elems). (length elems, 1::nat))
               (\<lambda>(env, objValue, elems). (length elems, 0)))")
qed auto

declare returnPathElement.simps [simp del] getPathContainer.simps [simp del]

text \<open>\<^verbatim>\<open>GetPathInterface(obj, path)\<close>.\<close>

definition GetPathInterface ::
  "stdlib \<Rightarrow> (gtype \<times> gval) option \<Rightarrow> string \<Rightarrow> (gtype \<times> gval) option outcome" where
  "GetPathInterface env obj path =
    (case parsePath path of
       Inl err \<Rightarrow> Fails err
     | Inr elems \<Rightarrow> returnPathElement env (ValueOf obj) elems)"

subsection \<open>Writing through a returned byte slice\<close>

text \<open>
  The memory behind the slices: \<open>poke a i x g\<close> is the graph \<open>g\<close> after the assignment
  \<^verbatim>\<open>b[i] = x\<close> through a slice header \<^verbatim>\<open>b\<close> whose data pointer is \<open>a\<close>. The backing array at
  \<open>a\<close> changes, and with it what every slice with that data pointer holds.
\<close>

fun poke :: "nat \<Rightarrow> nat \<Rightarrow> gval \<Rightarrow> gval \<Rightarrow> gval" where
  "poke a i x (VSlice b vs) =
    (let vs' = map (poke a i x) vs
     in VSlice b (if a = b \<and> i < length vs' then vs'[i := x] else vs'))"
| "poke a i x (VArray vs) = VArray (map (poke a i x) vs)"
| "poke a i x (VStruct vs) = VStruct (map (poke a i x) vs)"
| "poke a i x (VPtr p) = VPtr (map_option (poke a i x) p)"
| "poke a i x (VMap m) = VMap (map (\<lambda>kv. (fst kv, poke a i x (snd kv))) m)"
| "poke a i x v = v"

section \<open>Notions used to state the properties of the two services\<close>

text \<open>
  The table of the named layouts: the names in lower case, as the comparison with the
  lower-cased \<^verbatim>\<open>layout\<close> tag finds them, each with the layout of package \<^verbatim>\<open>time\<close> it stands
  for.
\<close>

definition layout_presets :: "(string \<times> string) list" where
  "layout_presets =
    [(''layout'', time_Layout), (''ansic'', time_ANSIC), (''unixdate'', time_UnixDate),
     (''rubydate'', time_RubyDate), (''rfc822'', time_RFC822), (''rfc850'', time_RFC850),
     (''rfc1123'', time_RFC1123), (''rfc3339'', time_RFC3339), (''kitchen'', time_Kitchen),
     (''stamp'', time_Stamp), (''stampmilli'', time_StampMilli),
     (''stampmicro'', time_StampMicro), (''stampnano'', time_StampNano),
     (''datetime'', time_DateTime), (''dateonly'', time_DateOnly),
     (''timeonly'', time_TimeOnly)]"

text \<open>
  A standard library for the examples: \<^verbatim>\<open>strconv.ParseFloat\<close> on the literals \<^verbatim>\<open>3.5\<close> and
  \<^verbatim>\<open>2.7\<close> returns the nearest \<^verbatim>\<open>float64\<close>, whose bit patterns are \<^verbatim>\<open>0x400C000000000000\<close> and
  \<^verbatim>\<open>0x400599999999999A\<close>; \<^verbatim>\<open>time.Parse("02.01.2006", "04.09.1990")\<close> returns the fourth of
  September 1990 at midnight, UTC, which is 62788003200 seconds after the first of January
  of the year 1, with no wall clock reading and the nil location that stands for UTC.
  Nothing else is needed of the library in the examples, so every other call is left
  failing and the clock returns the zero time.
\<close>

definition example_lib :: stdlib where
  "example_lib =
    \<lparr>ParseFloat = (\<lambda>s bits. if s = ''3.5'' then Some 0x400C000000000000
                              else if s = ''2.7'' then Some 0x400599999999999A else None),
     to_float32 = (\<lambda>x. x),
     time_Parse = (\<lambda>layout s. if layout = ''02.01.2006'' \<and> s = ''04.09.1990''
                              then Some (VStruct [VUint 0, VInt 62788003200, VPtr None])
                              else None),
     ParseDuration = (\<lambda>s. None),
     ParseUint_base0 = (\<lambda>s. None),
     time_Now = (\<lambda>n. VStruct [VUint 0, VInt 0, VPtr None])\<rparr>"

text \<open>
  The grammar of a complex descriptor in words: once the spaces are taken out, the
  descriptor holds exactly one \<open>+\<close>; what stands before it is the real part, what stands
  after it, without one final \<open>i\<close> when there is one, is the imaginary part; both are
  parsed as floating-point numbers of 64 bits. \<open>None\<close> when the descriptor is not of this
  form.
\<close>

definition complex_descriptor :: "stdlib \<Rightarrow> string \<Rightarrow> (64 word \<times> 64 word) option" where
  "complex_descriptor env tag =
    (let s = remove_spaces tag in
     if length (filter (\<lambda>c. c = CHR ''+'') s) \<noteq> 1 then None
     else (case ParseFloat env (takeWhile (\<lambda>c. c \<noteq> CHR ''+'') s) 64 of
             None \<Rightarrow> None
           | Some re \<Rightarrow>
               (case ParseFloat env (TrimSuffix (tl (dropWhile (\<lambda>c. c \<noteq> CHR ''+'') s)) ''i'') 64 of
                  None \<Rightarrow> None
                | Some im \<Rightarrow> Some (re, im))))"

text \<open>
  The data of the examples, after the structs of the package's tests and documentation: a
  person with a first name, a last name behind a pointer that is nil, an address, a slice
  of two addresses and a fingerprint of five bytes; and the struct of the documentation's
  example of defaults, cut down to its first four fields. The two slices of the person lie
  at the addresses 10 and 20.
\<close>

definition address_t :: gtype where
  "address_t = TStruct ''piranhas.address''
     [StructField ''street'' TString [] [], StructField ''number'' TInt [] [],
      StructField ''city'' TString [] [], StructField ''ZIP'' TString [] []]"

definition person_t :: gtype where
  "person_t = TStruct ''piranhas.person''
     [StructField ''firstName'' TString [] [], StructField ''lastName'' (TPtr TString) [] [],
      StructField ''address'' address_t [] [], StructField ''adresses1'' (TSlice address_t) [] [],
      StructField ''fingerprint'' (TSlice TUint8) [] []]"

definition person_v :: gval where
  "person_v = VStruct
     [VString ''Karl'', VPtr None,
      VStruct [VString ''Tellerstr'', VInt 29, VString ''Berlin'', VString ''10553''],
      VSlice 10 [VStruct [VString ''Muellerstr'', VInt 129, VString ''Berlin'', VString ''10487''],
                VStruct [VString ''Kanzlerplatz'', VInt 1, VString ''Berlin'', VString ''10000'']],
      VSlice 20 [VUint 72, VUint 101, VUint 108, VUint 108, VUint 111]]"

definition person :: "(gtype \<times> gval) option" where
  "person = Some (TPtr person_t, VPtr (Some person_v))"

definition example_t :: gtype where
  "example_t = TStruct ''main.example''
     [StructField ''boolVar'' TBool ''true'' [], StructField ''stringVar1'' TString ''33'' [],
      StructField ''stringVar2'' (TPtr TString) ''33'' [], StructField ''nixVar'' TInt8 [] []]"

definition exampleVar :: gval where
  "exampleVar = VStruct [VBool False, VString [], VPtr None, VInt 0]"

text \<open>The kinds whose values hold elements that a path element can name.\<close>

definition container :: "gtype \<Rightarrow> bool" where
  "container t = (Kind t \<in> {KStruct, KSlice, KArray, KMap})"

section \<open>Properties of the tokenizer\<close>




























subsection \<open>Control characters, open quotes and open escapes\<close>

lemma control_not_special:
  "rune c < 32 \<Longrightarrow> c \<noteq> CHR ''.'' \<and> c \<noteq> CHR ''/'' \<and> c \<noteq> bslash \<and> c \<noteq> CHR ''[''
     \<and> c \<noteq> CHR '']'' \<and> c \<noteq> dquote"
  by (auto simp: rune_def bslash_def dquote_def)

lemma step_control: "rune c < 32 \<Longrightarrow> isl (step st c)"
  using control_not_special [of c] by (simp add: step_def)

lemma scan_control: "c \<in> set s \<Longrightarrow> rune c < 32 \<Longrightarrow> isl (scan st s)"
proof (induction s arbitrary: st)
  case Nil
  then show ?case by simp
next
  case (Cons d s)
  show ?case
  proof (cases "step st d")
    case (Inl e)
    then show ?thesis by simp
  next
    case (Inr st')
    then have "d \<noteq> c" using step_control [OF Cons.prems(2), of st] by auto
    then have "c \<in> set s" using Cons.prems by auto
    then show ?thesis using Inr Cons.IH Cons.prems(2) by simp
  qed
qed

lemma step_quoting:
  "step st c = Inr st' \<Longrightarrow>
   quoting (inEscapeMode st) (inQuotes st) (c # cs) = quoting (inEscapeMode st') (inQuotes st') cs"
  by (auto simp: step_def append_char_def flush_def bslash_def dquote_def split: if_splits)

lemma scan_quoting:
  "scan st s = Inr st' \<Longrightarrow>
   quoting (inEscapeMode st) (inQuotes st) s = (inEscapeMode st', inQuotes st')"
proof (induction s arbitrary: st)
  case Nil
  then show ?case by simp
next
  case (Cons c s)
  then obtain st1 where 1: "step st c = Inr st1" and 2: "scan st1 s = Inr st'"
    by (auto split: sum.splits)
  have "quoting (inEscapeMode st) (inQuotes st) (c # s) = quoting (inEscapeMode st1) (inQuotes st1) s"
    using 1 by (rule step_quoting)
  then show ?case using Cons.IH [OF 2] by simp
qed

lemma finish_open: "inEscapeMode st \<or> inQuotes st \<Longrightarrow> isl (finish st)"
  by (auto simp: finish_def)

lemma parsePath_scan_error:
  "TrimSpace (strip_root path) \<noteq> [] \<Longrightarrow> isl (scan init_state (strip_root path)) \<Longrightarrow>
   isl (parsePath path)"
  by (auto simp: parsePath_def Let_def split: sum.splits)

lemma parsePath_open:
  assumes "TrimSpace (strip_root path) \<noteq> []"
    and "quoting False False (strip_root path) = (esc, q)" and "esc \<or> q"
  shows "isl (parsePath path)"
proof (cases "scan init_state (strip_root path)")
  case (Inl e)
  then show ?thesis using assms(1) by (simp add: parsePath_def)
next
  case (Inr st)
  have "quoting (inEscapeMode init_state) (inQuotes init_state) (strip_root path)
      = (inEscapeMode st, inQuotes st)"
    using Inr by (rule scan_quoting)
  then have "inEscapeMode st = esc \<and> inQuotes st = q"
    using assms(2) by (simp add: init_state_def)
  then have "isl (finish st)" using assms(3) by (simp add: finish_open)
  then show ?thesis using Inr assms(1) by (simp add: parsePath_def)
qed

lemma TrimSpace_Nil_iff: "TrimSpace s = [] \<longleftrightarrow> list_all IsSpace s"
proof
  assume "TrimSpace s = []"
  then have all: "\<forall>x\<in>set (dropWhile IsSpace s). IsSpace x"
    by (simp add: TrimSpace_def dropWhile_eq_Nil_conv)
  have "dropWhile IsSpace s = []"
  proof (rule ccontr)
    assume ne: "dropWhile IsSpace s \<noteq> []"
    then have "\<not> IsSpace (hd (dropWhile IsSpace s))" by (rule hd_dropWhile)
    moreover have "hd (dropWhile IsSpace s) \<in> set (dropWhile IsSpace s)" using ne by simp
    ultimately show False using all by blast
  qed
  then show "list_all IsSpace s" by (simp add: dropWhile_eq_Nil_conv list_all_iff)
next
  assume "list_all IsSpace s"
  then have e: "dropWhile IsSpace s = []" by (simp add: dropWhile_eq_Nil_conv list_all_iff)
  show "TrimSpace s = []" unfolding TrimSpace_def e by simp
qed

lemma quoting_spaces:
  "list_all IsSpace s \<Longrightarrow> quoting False q s = (False, q)"
  by (induction s) (auto simp: IsSpace_def rune_def bslash_def dquote_def)

lemma TrimSpace_last: "TrimSpace s \<noteq> [] \<Longrightarrow> \<not> IsSpace (last (TrimSpace s))"
proof -
  assume "TrimSpace s \<noteq> []"
  then have ne: "dropWhile IsSpace (rev (dropWhile IsSpace s)) \<noteq> []"
    by (simp add: TrimSpace_def)
  then have "\<not> IsSpace (hd (dropWhile IsSpace (rev (dropWhile IsSpace s))))"
    by (rule hd_dropWhile)
  then show ?thesis using ne by (simp add: TrimSpace_def last_rev)
qed

lemma TrimPrefix_suffix: "\<exists>k. TrimPrefix s p = drop k s \<and> set (take k s) \<subseteq> set p"
proof (cases "take (length p) s = p")
  case True
  then have "TrimPrefix s p = drop (length p) s \<and> set (take (length p) s) \<subseteq> set p"
    by (simp add: TrimPrefix_def)
  then show ?thesis by blast
next
  case False
  then have "TrimPrefix s p = drop 0 s \<and> set (take 0 s) \<subseteq> set p"
    by (simp add: TrimPrefix_def)
  then show ?thesis by blast
qed

lemma strip_root_suffix:
  "\<exists>k. strip_root path = drop k (TrimSpace path) \<and> set (take k (TrimSpace path)) \<subseteq> {CHR ''$'', CHR ''.''}"
proof -
  obtain k1 where k1: "TrimPrefix (TrimSpace path) ''$..'' = drop k1 (TrimSpace path)"
    "set (take k1 (TrimSpace path)) \<subseteq> set ''$..''"
    using TrimPrefix_suffix by blast
  obtain k2 where k2: "strip_root path = drop k2 (drop k1 (TrimSpace path))"
    "set (take k2 (drop k1 (TrimSpace path))) \<subseteq> set ''$.''"
    using TrimPrefix_suffix [of "TrimPrefix (TrimSpace path) ''$..''" "''$.''"] k1(1)
    by (auto simp: strip_root_def)
  have "take (k2 + k1) (TrimSpace path) = take k1 (TrimSpace path) @ take k2 (drop k1 (TrimSpace path))"
    by (simp add: take_add add.commute)
  then have "set (take (k2 + k1) (TrimSpace path)) \<subseteq> {CHR ''$'', CHR ''.''}"
    using k1(2) k2(2) by auto
  moreover have "strip_root path = drop (k2 + k1) (TrimSpace path)"
    using k2(1) by (simp add: add.commute)
  ultimately show ?thesis by blast
qed

lemma strip_root_not_blank: "strip_root path \<noteq> [] \<Longrightarrow> TrimSpace (strip_root path) \<noteq> []"
proof -
  assume ne: "strip_root path \<noteq> []"
  obtain k where k: "strip_root path = drop k (TrimSpace path)"
    using strip_root_suffix by blast
  then have "TrimSpace path \<noteq> []" using ne by auto
  then have "\<not> IsSpace (last (TrimSpace path))" by (rule TrimSpace_last)
  moreover have "last (strip_root path) = last (TrimSpace path)"
    using k ne by (simp add: last_drop)
  moreover have "last (strip_root path) \<in> set (strip_root path)" using ne by simp
  ultimately have "\<not> list_all IsSpace (strip_root path)"
    by (auto simp: list_all_iff)
  then show ?thesis by (simp add: TrimSpace_Nil_iff)
qed

lemma parsePath_control:
  assumes "list_ex (\<lambda>c. rune c < 32) (TrimSpace path)"
  shows "isl (parsePath path)"
proof -
  obtain c where c: "c \<in> set (TrimSpace path)" "rune c < 32"
    using assms by (auto simp: list_ex_iff)
  obtain k where k: "strip_root path = drop k (TrimSpace path)"
    "set (take k (TrimSpace path)) \<subseteq> {CHR ''$'', CHR ''.''}"
    using strip_root_suffix by blast
  have "c \<notin> {CHR ''$'', CHR ''.''}" using c(2) by (auto simp: rune_def)
  then have "c \<notin> set (take k (TrimSpace path))" using k(2) by blast
  moreover have "set (TrimSpace path) = set (take k (TrimSpace path)) \<union> set (drop k (TrimSpace path))"
    by (metis append_take_drop_id set_append)
  ultimately have in_p: "c \<in> set (strip_root path)" using c(1) k(1) by auto
  then have "strip_root path \<noteq> []" by auto
  then have "TrimSpace (strip_root path) \<noteq> []" by (rule strip_root_not_blank)
  moreover have "isl (scan init_state (strip_root path))" using in_p c(2) by (rule scan_control)
  ultimately show ?thesis by (rule parsePath_scan_error)
qed

lemma quoting_append:
  "quoting esc q (xs @ ys) = (case quoting esc q xs of (esc', q') \<Rightarrow> quoting esc' q' ys)"
  by (induction xs arbitrary: esc q) auto

lemma parsePath_dangling_escape:
  assumes "strip_root path = p @ [bslash]" and "quoting False False p = (False, True)"
  shows "isl (parsePath path)"
proof -
  have "quoting False False (strip_root path) = (True, True)"
    using assms by (simp add: quoting_append)
  moreover have "TrimSpace (strip_root path) \<noteq> []"
    using assms(1) by (intro strip_root_not_blank) simp
  ultimately show ?thesis using parsePath_open by blast
qed

lemma parsePath_open_quote:
  assumes "snd (quoting False False (strip_root path))"
  shows "isl (parsePath path)"
proof -
  obtain esc where q: "quoting False False (strip_root path) = (esc, True)"
    using assms by (cases "quoting False False (strip_root path)") auto
  have "strip_root path \<noteq> []" using q by auto
  then have "TrimSpace (strip_root path) \<noteq> []" by (rule strip_root_not_blank)
  then show ?thesis using q parsePath_open by blast
qed

subsection \<open>The documented examples\<close>





lemma parsePath_nested_brackets:
  "parsePath ''$..[[0].foo'' = Inl errNesstedSquareBracketsNotPermitted"
  by code_simp

lemma parsePath_lost_bracket: "parsePath ''$..0].foo'' = Inl errLostCloseSquareBracket"
  by code_simp




text \<open>
  C5. Malformed inputs are refused with an error and no element list: \<open>$..[[0].foo\<close> with
  the nested-brackets error and \<open>$..0].foo\<close> with the error of a closing bracket that was
  never opened; every input that still holds a control character after its surrounding
  white space is trimmed; every input that ends in a dangling escape, which is a backslash
  that opens an escape inside a quoted section and is the last character; and every input
  that ends inside a quoted section, its last quote unterminated.
\<close>

theorem C5_tokenizer_errors:
  "parsePath ''$..[[0].foo'' = Inl errNesstedSquareBracketsNotPermitted
   \<and> parsePath ''$..0].foo'' = Inl errLostCloseSquareBracket
   \<and> (list_ex (\<lambda>c. rune c < 32) (TrimSpace p1) \<longrightarrow> isl (parsePath p1))
   \<and> (strip_root p2 = q @ [bslash] \<and> quoting False False q = (False, True)
        \<longrightarrow> isl (parsePath p2))
   \<and> (snd (quoting False False (strip_root p3)) \<longrightarrow> isl (parsePath p3))"
  using parsePath_nested_brackets parsePath_lost_bracket parsePath_control [of p1]
    parsePath_dangling_escape [of p2 q] parsePath_open_quote [of p3]
  by blast

theorem C5_tokenizer_errors_witness:
  "list_ex (\<lambda>c. rune c < 32) (TrimSpace (''ab'' @ [CHR 0x01] @ ''c''))
   \<and> isl (parsePath (''ab'' @ [CHR 0x01] @ ''c''))
   \<and> strip_root ([dquote] @ ''foo'' @ [bslash]) = ([dquote] @ ''foo'') @ [bslash]
   \<and> quoting False False ([dquote] @ ''foo'') = (False, True)
   \<and> isl (parsePath ([dquote] @ ''foo'' @ [bslash]))
   \<and> snd (quoting False False (strip_root ([dquote] @ ''foo'')))
   \<and> isl (parsePath ([dquote] @ ''foo''))"
proof -
  have 1: "list_ex (\<lambda>c. rune c < 32) (TrimSpace (''ab'' @ [CHR 0x01] @ ''c''))"
    by (simp add: TrimSpace_def IsSpace_def rune_def)
  have 2: "strip_root ([dquote] @ ''foo'' @ [bslash]) = ([dquote] @ ''foo'') @ [bslash]"
    by (simp add: strip_root_def TrimPrefix_def TrimSpace_def IsSpace_def rune_def
        dquote_def bslash_def)
  have 3: "quoting False False ([dquote] @ ''foo'') = (False, True)"
    by (simp add: dquote_def bslash_def)
  have 4: "snd (quoting False False (strip_root ([dquote] @ ''foo'')))"
    by (simp add: strip_root_def TrimPrefix_def TrimSpace_def IsSpace_def rune_def
        dquote_def bslash_def)
  show ?thesis
    using 1 2 3 4 C5_tokenizer_errors
      [of "''ab'' @ [CHR 0x01] @ ''c''" "[dquote] @ ''foo'' @ [bslash]" "[dquote] @ ''foo''"
        "[dquote] @ ''foo''"]
    by simp
qed

section \<open>Properties of the descriptor parser\<close>

subsection \<open>Complex descriptors\<close>

lemma Split_nonempty: "Split s c \<noteq> []"
  by (induction s) (auto split: list.splits)

lemma length_Split: "length (Split s c) = Suc (length (filter (\<lambda>x. x = c) s))"
proof (induction s)
  case Nil
  then show ?case by simp
next
  case (Cons a s)
  then show ?case using Split_nonempty [of s c] by (auto split: list.splits)
qed

lemma Split_none: "c \<notin> set s \<Longrightarrow> Split s c = [s]"
  by (induction s) auto

lemma Split_two:
  "length (filter (\<lambda>x. x = c) s) = 1 \<Longrightarrow>
   Split s c = [takeWhile (\<lambda>x. x \<noteq> c) s, tl (dropWhile (\<lambda>x. x \<noteq> c) s)]"
proof (induction s)
  case Nil
  then show ?case by simp
next
  case (Cons a s)
  show ?case
  proof (cases "a = c")
    case True
    then have "c \<notin> set s" using Cons.prems by (auto simp: filter_empty_conv)
    then show ?thesis using True by (simp add: Split_none)
  next
    case False
    then show ?thesis using Cons by simp
  qed
qed

lemma parseComplex_grammar: "parseComplex env tag = complex_descriptor env tag"
proof (cases "length (filter (\<lambda>c. c = CHR ''+'') (remove_spaces tag)) = 1")
  case True
  then have ne: "remove_spaces tag \<noteq> []" by auto
  show ?thesis using True ne
    by (simp add: parseComplex_def complex_descriptor_def Let_def Split_two length_Split nth_Cons'
        cong: option.case_cong)
next
  case False
  then show ?thesis
    by (auto simp: parseComplex_def complex_descriptor_def Let_def length_Split)
qed

lemma parse_complex128:
  "parseDefaultValue env clk tag layout TComplex128 =
     (case complex_descriptor env tag of
        None \<Rightarrow> (Fails errSyntax, clk)
      | Some (re, im) \<Rightarrow> (Returns (TComplex128, VComplex re im), clk))"
  by (simp add: parse_by_kind_def parseComplex_grammar)

lemma parse_complex64:
  "parseDefaultValue env clk tag layout TComplex64 =
     (case complex_descriptor env tag of
        None \<Rightarrow> (Fails errSyntax, clk)
      | Some (re, im) \<Rightarrow>
          (Returns (TComplex64, VComplex (to_float32 env re) (to_float32 env im)), clk))"
  by (simp add: parse_by_kind_def parseComplex_grammar)

lemma complex_descriptor_documented:
  "ParseFloat env ''3.5'' 64 = Some a \<Longrightarrow> ParseFloat env ''2.7'' 64 = Some b \<Longrightarrow>
   complex_descriptor env ''3.5+2.7i'' = Some (a, b)"
  by (simp add: complex_descriptor_def remove_spaces_def TrimSuffix_def TrimPrefix_def)

text \<open>
  C6. For a complex field of either width the descriptor parser removes the spaces, splits
  at \<open>+\<close> and requires exactly two parts, that is exactly one \<open>+\<close>; it takes one final \<open>i\<close>
  off the second part when there is one and parses both parts as floating-point numbers of
  64 bits; the result is the complex number of the two (each part narrowed for the type of
  64 bits), and everything else fails with the invalid-syntax error. The descriptor
  \<open>3.5+2.7i\<close> gives the real part 3.5 and the imaginary part 2.7.
\<close>

theorem C6_complex_descriptor:
  "parseDefaultValue env clk tag layout TComplex128 =
     (case complex_descriptor env tag of
        None \<Rightarrow> (Fails errSyntax, clk)
      | Some (re, im) \<Rightarrow> (Returns (TComplex128, VComplex re im), clk))
   \<and> parseDefaultValue env clk tag layout TComplex64 =
     (case complex_descriptor env tag of
        None \<Rightarrow> (Fails errSyntax, clk)
      | Some (re, im) \<Rightarrow>
          (Returns (TComplex64, VComplex (to_float32 env re) (to_float32 env im)), clk))
   \<and> (ParseFloat env ''3.5'' 64 = Some a \<and> ParseFloat env ''2.7'' 64 = Some b
        \<longrightarrow> parseDefaultValue env clk ''3.5+2.7i'' layout TComplex128
              = (Returns (TComplex128, VComplex a b), clk))"
  using parse_complex128 [of env clk tag layout] parse_complex64 [of env clk tag layout]
    parse_complex128 [of env clk "''3.5+2.7i''" layout]
    complex_descriptor_documented [of env a b]
  by simp

theorem C6_complex_descriptor_witness:
  "ParseFloat example_lib ''3.5'' 64 = Some 0x400C000000000000
   \<and> ParseFloat example_lib ''2.7'' 64 = Some 0x400599999999999A
   \<and> parseDefaultValue example_lib 0 ''3.5+2.7i'' [] TComplex128
        = (Returns (TComplex128, VComplex 0x400C000000000000 0x400599999999999A), 0)"
  using C6_complex_descriptor
    [of example_lib 0 "[]" "[]" "0x400C000000000000" "0x400599999999999A"]
  by (simp add: example_lib_def)

text \<open>The claim as it was stated requires the second part to end in \<open>i\<close>; the descriptor
  \<open>3.5+2.7\<close> does not, and it is accepted.\<close>

theorem C6_counterexample:
  "last ''3.5+2.7'' \<noteq> CHR ''i''
   \<and> parseDefaultValue example_lib 0 ''3.5+2.7'' [] TComplex128
        = (Returns (TComplex128, VComplex 0x400C000000000000 0x400599999999999A), 0)"
  by (simp add: parse_by_kind_def parseComplex_def remove_spaces_def TrimSuffix_def
      TrimPrefix_def example_lib_def nth_Cons' cong: option.case_cong)

subsection \<open>Layouts of timestamps\<close>

lemma to_lower_not_upper: "\<not> (65 \<le> rune (to_lower c) \<and> rune (to_lower c) \<le> 90)"
  by (cases c) (auto simp: to_lower_def rune_def)

lemma ToLower_no_upper:
  assumes "c \<in> set s" "65 \<le> rune c" "rune c \<le> 90"
  shows "ToLower l \<noteq> s"
proof
  assume "ToLower l = s"
  then have "c \<in> to_lower ` set l" using assms(1) by (auto simp: ToLower_def)
  then obtain d where "c = to_lower d" by blast
  then show False using to_lower_not_upper [of d] assms(2,3) by simp
qed

text \<open>No lower-cased tag equals one of the two case labels that hold an upper-case letter.\<close>

lemma ToLower_labels: "ToLower l \<noteq> ''RFC1123Z''" "ToLower l \<noteq> ''rfc3339Nano''"
proof -
  show "ToLower l \<noteq> ''RFC1123Z''"
    by (rule ToLower_no_upper [of "CHR ''R''"]) (simp_all add: rune_def)
  show "ToLower l \<noteq> ''rfc3339Nano''"
    by (rule ToLower_no_upper [of "CHR ''N''"]) (simp_all add: rune_def)
qed

lemma ToLower_Nil: "ToLower l = [] \<longleftrightarrow> l = []"
  by (simp add: ToLower_def)

lemma ToLower_empty: "ToLower [] = []"
  by (simp add: ToLower_def)

lemma resolve_layout_table:
  assumes "ToLower l \<noteq> ''rfc1123z''" "ToLower l \<noteq> ''rfc3339nano''"
  shows "resolve_layout l =
    (case map_of layout_presets (ToLower l) of
       Some layout \<Rightarrow> layout
     | None \<Rightarrow> if l = [] then time_RFC3339 else l)"
  using ToLower_labels [of l] ToLower_Nil [of l]
  by (cases "l = []") (simp_all add: resolve_layout_def layout_presets_def Let_def ToLower_empty)

lemma parse_time:
  assumes "ToLower tag \<noteq> ''now''"
  shows "parseDefaultValue env clk tag l time_Time =
    (case time_Parse env (resolve_layout l) tag of
       None \<Rightarrow> (Fails errSyntax, clk)
     | Some t \<Rightarrow> (Returns (time_Time, t), clk))"
  using assms by (simp add: time_Time_def parse_by_kind_def)

text \<open>
  C7. The name of a layout is matched against the table of the named layouts without
  regard to the case of its letters, and a name of the table stands for its layout; an
  empty name stands for the layout of RFC 3339, the standard date and time with its offset;
  every other text is taken as a layout of its own, as it is written. A descriptor other
  than \<open>now\<close> is parsed with the layout found in this way, and a descriptor that does not
  parse fails with the invalid-syntax error. The names \<open>rfc1123z\<close> and \<open>rfc3339nano\<close> are
  left aside.
\<close>

theorem C7_layout_names:
  "(ToLower l \<noteq> ''rfc1123z'' \<and> ToLower l \<noteq> ''rfc3339nano'' \<longrightarrow>
      resolve_layout l =
        (case map_of layout_presets (ToLower l) of
           Some layout \<Rightarrow> layout
         | None \<Rightarrow> if l = [] then time_RFC3339 else l))
   \<and> (ToLower tag \<noteq> ''now'' \<longrightarrow>
        parseDefaultValue env clk tag l time_Time =
          (case time_Parse env (resolve_layout l) tag of
             None \<Rightarrow> (Fails errSyntax, clk)
           | Some t \<Rightarrow> (Returns (time_Time, t), clk)))"
  using resolve_layout_table [of l] parse_time [of tag env clk l] by blast

text \<open>The statement at the name \<open>Rfc822\<close>, at the empty name and at the layout \<open>02.01.2006\<close>
  of the documentation.\<close>

theorem C7_layout_names_witness:
  "ToLower ''Rfc822'' \<noteq> ''rfc1123z'' \<and> ToLower ''Rfc822'' \<noteq> ''rfc3339nano''
   \<and> resolve_layout ''Rfc822'' = time_RFC822
   \<and> resolve_layout [] = time_RFC3339
   \<and> ToLower ''04.09.1990'' \<noteq> ''now''
   \<and> parseDefaultValue example_lib 0 ''04.09.1990'' ''02.01.2006'' time_Time
        = (Returns (time_Time, VStruct [VUint 0, VInt 62788003200, VPtr None]), 0)"
proof -
  have a: "ToLower ''Rfc822'' = ''rfc822''" by code_simp
  have b: "ToLower ''02.01.2006'' = ''02.01.2006''" by code_simp
  have c: "ToLower ''04.09.1990'' = ''04.09.1990''" by code_simp
  have 1: "ToLower ''Rfc822'' \<noteq> ''rfc1123z'' \<and> ToLower ''Rfc822'' \<noteq> ''rfc3339nano''"
    by (simp add: a)
  have 4: "ToLower ''04.09.1990'' \<noteq> ''now''" by (simp add: c)
  have 5: "resolve_layout ''Rfc822'' = time_RFC822"
    using C7_layout_names [of "''Rfc822''" "[]" example_lib 0]
    by (simp add: layout_presets_def a)
  have 6: "resolve_layout [] = time_RFC3339"
    using C7_layout_names [of "[]" "[]" example_lib 0]
    by (simp add: layout_presets_def ToLower_empty)
  have 7: "resolve_layout ''02.01.2006'' = ''02.01.2006''"
    using C7_layout_names [of "''02.01.2006''" "[]" example_lib 0]
    by (simp add: layout_presets_def b)
  have 8: "parseDefaultValue example_lib 0 ''04.09.1990'' ''02.01.2006'' time_Time
        = (Returns (time_Time, VStruct [VUint 0, VInt 62788003200, VPtr None]), 0)"
    using 4 7 C7_layout_names [of "''02.01.2006''" "''04.09.1990''" example_lib 0]
    by (simp add: example_lib_def)
  show ?thesis using 1 4 5 6 8 by blast
qed

text \<open>The claim as it was stated sends every name that is not in the table to the layout
  of RFC 3339; the layout \<open>02.01.2006\<close> of the documentation is no name of the table and is
  used as it is written.\<close>

theorem C7_counterexample:
  "map_of layout_presets (ToLower ''02.01.2006'') = None
   \<and> resolve_layout ''02.01.2006'' = ''02.01.2006''
   \<and> ''02.01.2006'' \<noteq> time_RFC3339"
proof -
  have b: "ToLower ''02.01.2006'' = ''02.01.2006''" by code_simp
  show ?thesis by (simp add: resolve_layout_def layout_presets_def b time_RFC3339_def)
qed

section \<open>Properties of the defaulting walk\<close>

subsection \<open>Fields that are pointers to scalars\<close>

lemma Kind_strip_ptr: "Kind (strip_ptr t) \<noteq> KPtr"
  by (induction t rule: strip_ptr.induct) simp_all

lemma parseDefaultValue_no_pointer:
  "Kind ft \<noteq> KPtr \<Longrightarrow> parseDefaultValue env clk tag l ft = parse_by_kind env clk tag l ft"
  by (cases ft) simp_all

text \<open>What the parser returns for a type that is no pointer is no pointer, and has the type
  of no interface.\<close>

lemma parse_by_kind_type:
  assumes "parse_by_kind env clk tag l ft = (Returns (ty, x), clk')"
  shows "Kind ty \<noteq> KPtr \<and> ty \<noteq> TInterface"
  using assms
  by (auto simp: parse_by_kind_def Let_def time_Time_def
      split: if_splits option.splits prod.splits)

lemma store_default_pointer:
  assumes "ftype f = TPtr t"
    and "parseDefaultValue env clk (fdefault f) (flayout f) (strip_ptr t) = (Returns x, clk')"
  shows "store_default env clk f = (Panics, clk')"
proof -
  obtain ty y where x: "x = (ty, y)" by (cases x)
  have "parse_by_kind env clk (fdefault f) (flayout f) (strip_ptr t) = (Returns (ty, y), clk')"
    using assms(2) x by (simp add: parseDefaultValue_no_pointer Kind_strip_ptr)
  then have "Kind ty \<noteq> KPtr \<and> ty \<noteq> TInterface" by (rule parse_by_kind_type)
  then have "Set_value (TPtr t) (ty, y) = None" by (auto simp: Set_value_def)
  then show ?thesis using assms x by (simp add: store_default_def setUnexportedField_def)
qed

lemma field_step_pointer:
  assumes "ftype f = TPtr t" "fdefault f \<noteq> []"
    and "Kind (strip_ptr t) \<notin> {KStruct, KSlice, KArray, KMap}"
    and "parseDefaultValue env clk (fdefault f) (flayout f) (strip_ptr t) = (Returns x, clk')"
  shows "field_step env clk f v err = (Stop Panicked, v, clk')"
proof -
  have "Kind (strip_ptr (ftype f)) \<noteq> KInvalid" by (cases "strip_ptr (ftype f)") simp_all
  then show ?thesis
    using assms(1,2,3) store_default_pointer [OF assms(1,4)]
    by (simp add: field_step.simps Let_def)
qed

lemma example_walk:
  "SetDefaults env clk (Some (TPtr example_t, VPtr (Some exampleVar)))
     = (Panicked, Some (TPtr example_t, VPtr (Some (VStruct [VBool True, VString ''33'', VPtr None, VInt 0]))), clk)"
  by (simp add: SetDefaults_def example_t_def exampleVar_def setDefaultsStruct.simps
      field_step.simps store_default_def parse_by_kind_def ParseBool_def Set_value_def
      setUnexportedField_def Let_def)

text \<open>
  C1. A field that is a pointer to a scalar and has a descriptor: the descriptor is parsed
  against the type without its pointers, and what the parser returns, a value of that
  type, is stored into the field, a pointer. \<^verbatim>\<open>Set\<close> panics. So whenever the descriptor
  parses, the round of the loop for this field ends the walk with a panic and leaves the
  field as it was. The walk of the documentation's example sets its first two fields and
  panics at the third, \<^verbatim>\<open>stringVar2 *string\<close> with the descriptor \<^verbatim>\<open>33\<close>.
\<close>

theorem C1_pointer_field_panics:
  "(ftype f = TPtr t \<and> fdefault f \<noteq> [] \<and> Kind (strip_ptr t) \<notin> {KStruct, KSlice, KArray, KMap}
      \<and> parseDefaultValue env clk (fdefault f) (flayout f) (strip_ptr t) = (Returns x, clk')
      \<longrightarrow> field_step env clk f v err = (Stop Panicked, v, clk'))
   \<and> SetDefaults env clk (Some (TPtr example_t, VPtr (Some exampleVar)))
       = (Panicked,
          Some (TPtr example_t, VPtr (Some (VStruct [VBool True, VString ''33'', VPtr None, VInt 0]))),
          clk)"
  using field_step_pointer [of f t env clk x clk' v err] example_walk [of env clk] by blast

theorem C1_pointer_field_panics_witness:
  "parseDefaultValue example_lib 0 ''33'' [] (strip_ptr TString) = (Returns (TString, VString ''33''), 0)
   \<and> field_step example_lib 0 (StructField ''stringVar2'' (TPtr TString) ''33'' []) (VPtr None) None
        = (Stop Panicked, VPtr None, 0)"
proof -
  have 1: "parseDefaultValue example_lib 0 ''33'' [] (strip_ptr TString) = (Returns (TString, VString ''33''), 0)"
    by (simp add: parse_by_kind_def)
  show ?thesis
    using 1 C1_pointer_field_panics [of "StructField ''stringVar2'' (TPtr TString) ''33'' []" TString
        example_lib 0 "(TString, VString ''33'')" 0 "VPtr None" None]
    by simp
qed

section \<open>Properties of the path resolver\<close>

lemma read_pointers_not_ptr:
  "read_pointers t0 v0 = Some (t, v) \<Longrightarrow> Kind t \<noteq> KPtr"
proof (induction t0 v0 rule: read_pointers.induct)
  case (1 t0 v0)
  show ?case
  proof (cases "Kind t0 = KPtr")
    case True
    then obtain v' where v': "ptr_target v0 = Some v'" "read_pointers (Elem t0) v' = Some (t, v)"
      using "1.prems" by (subst (asm) read_pointers.simps) (auto split: option.splits)
    then show ?thesis using "1.IH" True by blast
  next
    case False
    then show ?thesis using "1.prems" by (subst (asm) read_pointers.simps) auto
  qed
qed

lemma read_pointers_id: "Kind t \<noteq> KPtr \<Longrightarrow> read_pointers t v = Some (t, v)"
  by (subst read_pointers.simps) simp

lemma read_pointers_None_ptr: "read_pointers t v = None \<Longrightarrow> Kind t = KPtr"
  by (subst (asm) read_pointers.simps) (auto split: if_splits)

lemma getInterfaceOfValue_read:
  "read_pointers t0 v0 = Some (t, v) \<Longrightarrow>
   getInterfaceOfValue (RValue t0 v0 ro) = getInterfaceOfValue (RValue t v ro)"
  using read_pointers_id [OF read_pointers_not_ptr, of t0 v0 t v v]
  by (simp add: getInterfaceOfValue_def)

lemma returnPathElement_Nil:
  "returnPathElement env x [] = getInterfaceOfValue x"
proof (cases x)
  case RInvalid
  then show ?thesis by (simp add: returnPathElement.simps)
next
  case (RValue t0 v0 ro)
  show ?thesis
  proof (cases "read_pointers t0 v0")
    case None
    then show ?thesis using RValue
      by (simp add: returnPathElement.simps getInterfaceOfValue_def)
  next
    case (Some a)
    then obtain t v where "read_pointers t0 v0 = Some (t, v)" by (cases a) auto
    then show ?thesis using RValue getInterfaceOfValue_read [of t0 v0 t v ro]
      by (simp add: returnPathElement.simps)
  qed
qed

lemma returnPathElement_nil_pointer:
  "read_pointers t0 v0 = None \<Longrightarrow>
   returnPathElement env (RValue t0 v0 ro) es = (if es = [] then Returns None else Fails errPathToLong)"
  by (simp add: returnPathElement.simps)

lemma getInterfaceOfValue_nil_pointer:
  "read_pointers t0 v0 = None \<Longrightarrow> getInterfaceOfValue (RValue t0 v0 ro) = Returns None"
  by (simp add: getInterfaceOfValue_def)

lemma returnPathElement_Cons:
  assumes "read_pointers t0 v0 = Some (t, v)" "container t"
  shows "returnPathElement env (RValue t0 v0 ro) (e # es) =
    (case locate env t v ro e of
       Inl err \<Rightarrow> Fails err
     | Inr x \<Rightarrow> returnPathElement env x es)"
proof -
  have np: "Kind t \<noteq> KPtr" using assms(1) by (rule read_pointers_not_ptr)
  have 1: "returnPathElement env (RValue t0 v0 ro) (e # es) = getPathContainer env (RValue t v ro) (e # es)"
    using assms by (simp add: returnPathElement.simps container_def)
  have 2: "getPathContainer env (RValue t v ro) (e # es) =
    (case locate env t v ro e of
       Inl err \<Rightarrow> Fails err
     | Inr x \<Rightarrow> if es \<noteq> [] then returnPathElement env x es else getInterfaceOfValue x)"
    using np by (auto simp: getPathContainer.simps read_pointers_id split: sum.splits)
  show ?thesis unfolding 1 2
    by (cases es) (simp_all add: returnPathElement_Nil split: sum.splits)
qed

lemma returnPathElement_scalar:
  assumes "read_pointers t0 v0 = Some (t, v)" "\<not> container t" "es \<noteq> []"
  shows "returnPathElement env (RValue t0 v0 ro) es = Fails errPathToLong"
  using assms by (simp add: returnPathElement.simps container_def)

lemma returnPathElement_missing_field:
  assumes "read_pointers t0 v0 = Some (t, VStruct vs)" "Kind t = KStruct"
    "FieldByName (Fields t) vs e = None"
  shows "returnPathElement env (RValue t0 v0 ro) (e # es) = Fails errObjNotExists"
  using assms returnPathElement_Cons [of t0 v0 t "VStruct vs" env ro e es]
  by (simp add: container_def locate_def)

lemma returnPathElement_index_outside:
  assumes "read_pointers t0 v0 = Some (t, v)" "Kind t = KSlice \<or> Kind t = KArray"
    "elements v = Some xs" "Atoi e = Some i" "i < 0 \<or> int (length xs) \<le> i"
  shows "returnPathElement env (RValue t0 v0 ro) (e # es) = Fails errObjNotExists"
  using assms returnPathElement_Cons [of t0 v0 t v env ro e es]
  by (auto simp: container_def locate_def)

lemma parsePath_address_city: "parsePath ''address.city'' = Inr [''address'', ''city'']"
  by code_simp

lemma resolve_address_city:
  assumes "read_pointers t0 v0 = Some (TStruct n fs, VStruct vs)"
    "FieldByName fs vs ''address'' = Some (fa, VStruct avs)" "ftype fa = TStruct n' afs"
    "FieldByName afs avs ''city'' = Some (fc, VString s)" "ftype fc = TString"
  shows "GetPathInterface env (Some (t0, v0)) ''address.city'' = Returns (Some (TString, VString s))"
proof -
  have 1: "returnPathElement env (RValue t0 v0 False) [''address'', ''city'']
      = returnPathElement env (RValue (TStruct n' afs) (VStruct avs) (\<not> IsExported (fname fa))) [''city'']"
    using assms(2,3) returnPathElement_Cons [OF assms(1), of env False "''address''" "[''city'']"]
    by (simp add: container_def locate_def)
  have 2: "returnPathElement env (RValue (TStruct n' afs) (VStruct avs) (\<not> IsExported (fname fa))) [''city'']
      = returnPathElement env (RValue TString (VString s) (\<not> IsExported (fname fa) \<or> \<not> IsExported (fname fc))) []"
    using assms(4,5)
      returnPathElement_Cons [of "TStruct n' afs" "VStruct avs" "TStruct n' afs" "VStruct avs" env
        "\<not> IsExported (fname fa)" "''city''" "[]"]
    by (simp add: container_def locate_def read_pointers_id)
  have 3: "returnPathElement env (RValue TString (VString s) ro) [] = Returns (Some (TString, VString s))" for ro
    by (simp add: returnPathElement_Nil getInterfaceOfValue_def read_pointers_id)
  show ?thesis by (simp add: GetPathInterface_def parsePath_address_city 1 2 3)
qed

subsection \<open>The person of the examples\<close>

lemma person_read: "read_pointers (TPtr person_t) (VPtr (Some person_v)) = Some (person_t, person_v)"
  by (simp add: read_pointers.simps person_t_def)

lemma person_address_city:
  "GetPathInterface env person ''address.city'' = Returns (Some (TString, VString ''Berlin''))"
proof -
  have "read_pointers (TPtr person_t) (VPtr (Some person_v))
      = Some (TStruct ''piranhas.person'' (Fields person_t), VStruct (the (struct_values person_v)))"
    by (simp add: person_read) (simp add: person_t_def person_v_def)
  then show ?thesis unfolding person_def
    by (rule resolve_address_city [where fa = "StructField ''address'' address_t [] []"
          and n' = "''piranhas.address''" and fc = "StructField ''city'' TString [] []"
          and afs = "Fields address_t"
          and avs = "[VString ''Tellerstr'', VInt 29, VString ''Berlin'', VString ''10553'']"])
       (simp_all add: person_t_def person_v_def address_t_def)
qed

lemma person_address_town:
  "GetPathInterface env person ''address.town'' = Fails errObjNotExists"
proof -
  have p: "parsePath ''address.town'' = Inr [''address'', ''town'']" by code_simp
  have 1: "returnPathElement env (RValue (TPtr person_t) (VPtr (Some person_v)) False) [''address'', ''town'']
      = returnPathElement env (RValue address_t
          (VStruct [VString ''Tellerstr'', VInt 29, VString ''Berlin'', VString ''10553'']) True) [''town'']"
    using returnPathElement_Cons [OF person_read, of env False "''address''" "[''town'']"]
    by (simp add: container_def locate_def person_t_def person_v_def IsExported_def rune_def)
  have 2: "returnPathElement env (RValue address_t
          (VStruct [VString ''Tellerstr'', VInt 29, VString ''Berlin'', VString ''10553'']) True) [''town'']
      = Fails errObjNotExists"
    by (rule returnPathElement_missing_field [where t = address_t
          and vs = "[VString ''Tellerstr'', VInt 29, VString ''Berlin'', VString ''10553'']"])
       (simp_all add: address_t_def read_pointers_id)
  show ?thesis by (simp add: GetPathInterface_def person_def p 1 2)
qed

lemma person_first_name_more:
  "GetPathInterface env person ''firstName.x'' = Fails errPathToLong"
proof -
  have p: "parsePath ''firstName.x'' = Inr [''firstName'', ''x'']" by code_simp
  have 1: "returnPathElement env (RValue (TPtr person_t) (VPtr (Some person_v)) False) [''firstName'', ''x'']
      = returnPathElement env (RValue TString (VString ''Karl'') True) [''x'']"
    using returnPathElement_Cons [OF person_read, of env False "''firstName''" "[''x'']"]
    by (simp add: container_def locate_def person_t_def person_v_def IsExported_def rune_def)
  have 2: "returnPathElement env (RValue TString (VString ''Karl'') True) [''x''] = Fails errPathToLong"
    by (rule returnPathElement_scalar [where t = TString]) (simp_all add: read_pointers_id container_def)
  show ?thesis by (simp add: GetPathInterface_def person_def p 1 2)
qed

lemma Atoi_2: "Atoi ''2'' = Some 2"
  by (simp add: Atoi_def ParseInt_def IntSize_def is_digit_def digits_val_def rune_def)

lemma person_index_outside:
  "GetPathInterface env person ''adresses1.2.city'' = Fails errObjNotExists"
proof -
  have p: "parsePath ''adresses1.2.city'' = Inr [''adresses1'', ''2'', ''city'']" by code_simp
  have 1: "returnPathElement env (RValue (TPtr person_t) (VPtr (Some person_v)) False)
        [''adresses1'', ''2'', ''city'']
      = returnPathElement env (RValue (TSlice address_t)
          (VSlice 10 [VStruct [VString ''Muellerstr'', VInt 129, VString ''Berlin'', VString ''10487''],
                VStruct [VString ''Kanzlerplatz'', VInt 1, VString ''Berlin'', VString ''10000'']])
          True) [''2'', ''city'']"
    using returnPathElement_Cons [OF person_read, of env False "''adresses1''" "[''2'', ''city'']"]
    by (simp add: container_def locate_def person_t_def person_v_def IsExported_def rune_def)
  have 2: "returnPathElement env (RValue (TSlice address_t)
          (VSlice 10 [VStruct [VString ''Muellerstr'', VInt 129, VString ''Berlin'', VString ''10487''],
                VStruct [VString ''Kanzlerplatz'', VInt 1, VString ''Berlin'', VString ''10000'']])
          True) [''2'', ''city''] = Fails errObjNotExists"
    using returnPathElement_index_outside [where t0 = "TSlice address_t" and t = "TSlice address_t"
          and i = 2 and e = "''2''" and es = "[''city'']" and env = env and ro = True
          and v0 = "VSlice 10 [VStruct [VString ''Muellerstr'', VInt 129, VString ''Berlin'', VString ''10487''],
                VStruct [VString ''Kanzlerplatz'', VInt 1, VString ''Berlin'', VString ''10000'']]"
          and v = "VSlice 10 [VStruct [VString ''Muellerstr'', VInt 129, VString ''Berlin'', VString ''10487''],
                VStruct [VString ''Kanzlerplatz'', VInt 1, VString ''Berlin'', VString ''10000'']]"
          and xs = "[VStruct [VString ''Muellerstr'', VInt 129, VString ''Berlin'', VString ''10487''],
                VStruct [VString ''Kanzlerplatz'', VInt 1, VString ''Berlin'', VString ''10000'']]"]
    by (simp add: read_pointers_id Atoi_2)
  show ?thesis by (simp add: GetPathInterface_def person_def p 1 2)
qed

lemma person_last_name:
  "GetPathInterface env person ''lastName'' = Returns None"
proof -
  have p: "parsePath ''lastName'' = Inr [''lastName'']" by code_simp
  have 1: "returnPathElement env (RValue (TPtr person_t) (VPtr (Some person_v)) False) [''lastName'']
      = returnPathElement env (RValue (TPtr TString) (VPtr None) True) []"
    using returnPathElement_Cons [OF person_read, of env False "''lastName''" "[]"]
    by (simp add: container_def locate_def person_t_def person_v_def IsExported_def rune_def)
  have 2: "returnPathElement env (RValue (TPtr TString) (VPtr None) True) [] = Returns None"
    by (simp add: returnPathElement_nil_pointer read_pointers.simps)
  show ?thesis by (simp add: GetPathInterface_def person_def p 1 2)
qed

lemma person_last_name_more:
  "GetPathInterface env person ''lastName.x'' = Fails errPathToLong"
proof -
  have p: "parsePath ''lastName.x'' = Inr [''lastName'', ''x'']" by code_simp
  have 1: "returnPathElement env (RValue (TPtr person_t) (VPtr (Some person_v)) False) [''lastName'', ''x'']
      = returnPathElement env (RValue (TPtr TString) (VPtr None) True) [''x'']"
    using returnPathElement_Cons [OF person_read, of env False "''lastName''" "[''x'']"]
    by (simp add: container_def locate_def person_t_def person_v_def IsExported_def rune_def)
  have 2: "returnPathElement env (RValue (TPtr TString) (VPtr None) True) [''x''] = Fails errPathToLong"
    by (simp add: returnPathElement_nil_pointer read_pointers.simps)
  show ?thesis by (simp add: GetPathInterface_def person_def p 1 2)
qed

lemma person_fingerprint:
  "GetPathInterface env person ''fingerprint''
     = Returns (Some (TSlice TUint8, VSlice 20 [VUint 72, VUint 101, VUint 108, VUint 108, VUint 111]))"
proof -
  have p: "parsePath ''fingerprint'' = Inr [''fingerprint'']" by code_simp
  have 1: "returnPathElement env (RValue (TPtr person_t) (VPtr (Some person_v)) False) [''fingerprint'']
      = returnPathElement env (RValue (TSlice TUint8)
          (VSlice 20 [VUint 72, VUint 101, VUint 108, VUint 108, VUint 111]) True) []"
    using returnPathElement_Cons [OF person_read, of env False "''fingerprint''" "[]"]
    by (simp add: container_def locate_def person_t_def person_v_def IsExported_def rune_def)
  show ?thesis
    by (simp add: GetPathInterface_def person_def p 1 returnPathElement_Nil getInterfaceOfValue_def
        read_pointers_id)
qed

lemma person_poked:
  "poke 20 0 (VUint 0) (VPtr (Some person_v)) = VPtr (Some (VStruct
     [VString ''Karl'', VPtr None,
      VStruct [VString ''Tellerstr'', VInt 29, VString ''Berlin'', VString ''10553''],
      VSlice 10 [VStruct [VString ''Muellerstr'', VInt 129, VString ''Berlin'', VString ''10487''],
                VStruct [VString ''Kanzlerplatz'', VInt 1, VString ''Berlin'', VString ''10000'']],
      VSlice 20 [VUint 0, VUint 101, VUint 108, VUint 108, VUint 111]]))"
  by (simp add: person_v_def)

lemma person_poked_fingerprint:
  "GetPathInterface env (Some (TPtr person_t, poke 20 0 (VUint 0) (VPtr (Some person_v)))) ''fingerprint''
     = Returns (Some (TSlice TUint8, VSlice 20 [VUint 0, VUint 101, VUint 108, VUint 108, VUint 111]))"
proof -
  have p: "parsePath ''fingerprint'' = Inr [''fingerprint'']" by code_simp
  have r: "read_pointers (TPtr person_t) (poke 20 0 (VUint 0) (VPtr (Some person_v)))
      = Some (person_t, the (ptr_target (poke 20 0 (VUint 0) (VPtr (Some person_v)))))"
    by (simp add: read_pointers.simps person_t_def)
  have 1: "returnPathElement env (RValue (TPtr person_t) (poke 20 0 (VUint 0) (VPtr (Some person_v))) False)
        [''fingerprint'']
      = returnPathElement env (RValue (TSlice TUint8)
          (VSlice 20 [VUint 0, VUint 101, VUint 108, VUint 108, VUint 111]) True) []"
    using returnPathElement_Cons [OF r, of env False "''fingerprint''" "[]"]
    by (simp add: container_def locate_def person_t_def person_v_def IsExported_def rune_def)
  show ?thesis
    by (simp only: GetPathInterface_def p sum.case ValueOf.simps 1)
       (simp add: returnPathElement_Nil getInterfaceOfValue_def read_pointers_id)
qed

text \<open>
  C2. Resolution from the entry point. For a record, given itself or behind pointers, with
  a record field \<open>address\<close> whose field \<open>city\<close> holds the string Berlin, the path
  \<open>address.city\<close> returns Berlin. Wherever the resolution stands: a path element that names
  no field of the record it meets fails with the error of the element that does not exist;
  path elements left over at a value that is no record, sequence or map fail with the error
  of the path that is too long; an index below zero or not below the length of the sequence
  it meets fails with the error of the element that does not exist. The four cases on the
  person of the examples.
\<close>

theorem C2_resolution:
  "(read_pointers t0 v0 = Some (TStruct n fs, VStruct vs)
      \<and> FieldByName fs vs ''address'' = Some (fa, VStruct avs) \<and> ftype fa = TStruct n' afs
      \<and> FieldByName afs avs ''city'' = Some (fc, VString ''Berlin'') \<and> ftype fc = TString
      \<longrightarrow> GetPathInterface env (Some (t0, v0)) ''address.city''
            = Returns (Some (TString, VString ''Berlin'')))
   \<and> (read_pointers t0 v0 = Some (t, VStruct vs) \<and> Kind t = KStruct
        \<and> FieldByName (Fields t) vs e = None
      \<longrightarrow> returnPathElement env (RValue t0 v0 ro) (e # es) = Fails errObjNotExists)
   \<and> (read_pointers t0 v0 = Some (t, v) \<and> \<not> container t \<and> es \<noteq> []
      \<longrightarrow> returnPathElement env (RValue t0 v0 ro) es = Fails errPathToLong)
   \<and> (read_pointers t0 v0 = Some (t, v) \<and> (Kind t = KSlice \<or> Kind t = KArray)
        \<and> elements v = Some xs \<and> Atoi e = Some i \<and> (i < 0 \<or> int (length xs) \<le> i)
      \<longrightarrow> returnPathElement env (RValue t0 v0 ro) (e # es) = Fails errObjNotExists)
   \<and> GetPathInterface env person ''address.city'' = Returns (Some (TString, VString ''Berlin''))
   \<and> GetPathInterface env person ''address.town'' = Fails errObjNotExists
   \<and> GetPathInterface env person ''firstName.x'' = Fails errPathToLong
   \<and> GetPathInterface env person ''adresses1.2.city'' = Fails errObjNotExists"
  using resolve_address_city [of t0 v0 n fs vs fa avs n' afs fc "''Berlin''" env]
    returnPathElement_missing_field [of t0 v0 t vs e env ro es]
    returnPathElement_scalar [of t0 v0 t v es env ro]
    returnPathElement_index_outside [of t0 v0 t v xs e i env ro es]
    person_address_city [of env] person_address_town [of env] person_first_name_more [of env]
    person_index_outside [of env]
  by blast

text \<open>The general cases at the person, at its address, at its first name and at its slice of
  addresses.\<close>

theorem C2_resolution_witness:
  "read_pointers (TPtr person_t) (VPtr (Some person_v)) = Some (person_t, person_v)
   \<and> GetPathInterface example_lib (Some (TPtr person_t, VPtr (Some person_v))) ''address.city''
        = Returns (Some (TString, VString ''Berlin''))
   \<and> FieldByName (Fields address_t)
        [VString ''Tellerstr'', VInt 29, VString ''Berlin'', VString ''10553''] ''town'' = None
   \<and> returnPathElement example_lib
        (RValue address_t (VStruct [VString ''Tellerstr'', VInt 29, VString ''Berlin'', VString ''10553'']) True)
        [''town''] = Fails errObjNotExists
   \<and> \<not> container TString
   \<and> returnPathElement example_lib (RValue TString (VString ''Karl'') True) [''x''] = Fails errPathToLong
   \<and> Atoi ''2'' = Some 2
   \<and> returnPathElement example_lib
        (RValue (TSlice TUint8) (VSlice 20 [VUint 72, VUint 101]) True) [''2'']
        = Fails errObjNotExists"
proof -
  have 1: "read_pointers (TPtr person_t) (VPtr (Some person_v))
      = Some (TStruct ''piranhas.person'' (Fields person_t), VStruct (the (struct_values person_v)))"
    by (simp add: person_read) (simp add: person_t_def person_v_def)
  have 2: "GetPathInterface example_lib (Some (TPtr person_t, VPtr (Some person_v))) ''address.city''
        = Returns (Some (TString, VString ''Berlin''))"
    using 1 C2_resolution [where ?t0.0 = "TPtr person_t" and ?v0.0 = "VPtr (Some person_v)"
        and n = "''piranhas.person''" and fs = "Fields person_t"
        and vs = "the (struct_values person_v)"
        and fa = "StructField ''address'' address_t [] []"
        and avs = "[VString ''Tellerstr'', VInt 29, VString ''Berlin'', VString ''10553'']"
        and n' = "''piranhas.address''" and afs = "Fields address_t"
        and fc = "StructField ''city'' TString [] []" and env = example_lib]
    by (simp add: person_t_def person_v_def address_t_def)
  have 3: "FieldByName (Fields address_t)
        [VString ''Tellerstr'', VInt 29, VString ''Berlin'', VString ''10553''] ''town'' = None"
    by (simp add: address_t_def)
  have 4: "returnPathElement example_lib
        (RValue address_t (VStruct [VString ''Tellerstr'', VInt 29, VString ''Berlin'', VString ''10553'']) True)
        [''town''] = Fails errObjNotExists"
    using 3 C2_resolution [where ?t0.0 = address_t and t = address_t
        and ?v0.0 = "VStruct [VString ''Tellerstr'', VInt 29, VString ''Berlin'', VString ''10553'']"
        and vs = "[VString ''Tellerstr'', VInt 29, VString ''Berlin'', VString ''10553'']"
        and e = "''town''" and es = "[]" and ro = True and env = example_lib]
    by (simp add: read_pointers_id address_t_def)
  have 5: "\<not> container TString" by (simp add: container_def)
  have 6: "returnPathElement example_lib (RValue TString (VString ''Karl'') True) [''x''] = Fails errPathToLong"
    using 5 C2_resolution [where ?t0.0 = TString and t = TString and ?v0.0 = "VString ''Karl''"
        and v = "VString ''Karl''" and es = "[''x'']" and ro = True and env = example_lib]
    by (simp add: read_pointers_id)
  have 7: "Atoi ''2'' = Some 2" by (rule Atoi_2)
  have 8: "returnPathElement example_lib
        (RValue (TSlice TUint8) (VSlice 20 [VUint 72, VUint 101]) True) [''2'']
        = Fails errObjNotExists"
    using 7 C2_resolution [where ?t0.0 = "TSlice TUint8" and t = "TSlice TUint8"
        and ?v0.0 = "VSlice 20 [VUint 72, VUint 101]" and v = "VSlice 20 [VUint 72, VUint 101]"
        and xs = "[VUint 72, VUint 101]" and e = "''2''" and i = 2 and es = "[]" and ro = True
        and env = example_lib]
    by (simp add: read_pointers_id)
  show ?thesis using person_read 2 3 4 5 6 7 8 by blast
qed

text \<open>
  C3. A pointer met during the resolution, at the root or at an element that a path element
  has named, is read by \<^verbatim>\<open>returnPathElement\<close>, or by \<^verbatim>\<open>getInterfaceOfValue\<close> when it is the
  last one. \<open>read_pointers\<close> is \<open>None\<close> exactly for a pointer, or a chain of pointers, that
  ends in nil. For such a pointer the resolution returns nil and no error when no path
  element is left, and fails with the error of the path that is too long when one is left.
  The resolution of the next path element always goes through \<^verbatim>\<open>returnPathElement\<close> again:
  \<^verbatim>\<open>getPathContainer\<close> gets a value whose pointers have been read away, so its own test for
  a nil pointer is never reached with one.
\<close>

theorem C3_nil_pointer:
  "read_pointers (TPtr t1) (VPtr None) = None
   \<and> read_pointers (TPtr t1) (VPtr (Some v1)) = read_pointers t1 v1
   \<and> (read_pointers t0 v0 = None \<longrightarrow>
        returnPathElement env (RValue t0 v0 ro) es
          = (if es = [] then Returns None else Fails errPathToLong))
   \<and> (read_pointers t0 v0 = None \<longrightarrow> getInterfaceOfValue (RValue t0 v0 ro) = Returns None)
   \<and> returnPathElement env x [] = getInterfaceOfValue x
   \<and> (read_pointers t0 v0 = Some (t, v) \<and> container t \<longrightarrow>
        returnPathElement env (RValue t0 v0 ro) (e # es) =
          (case locate env t v ro e of
             Inl err \<Rightarrow> Fails err
           | Inr y \<Rightarrow> returnPathElement env y es))
   \<and> GetPathInterface env person ''lastName'' = Returns None
   \<and> GetPathInterface env person ''lastName.x'' = Fails errPathToLong"
proof -
  have 1: "read_pointers (TPtr t1) (VPtr None) = None" by (simp add: read_pointers.simps)
  have 2: "read_pointers (TPtr t1) (VPtr (Some v1)) = read_pointers t1 v1"
    by (subst read_pointers.simps) simp
  show ?thesis
    using 1 2 returnPathElement_nil_pointer [of t0 v0 env ro es]
      getInterfaceOfValue_nil_pointer [of t0 v0 ro] returnPathElement_Nil [of env x]
      returnPathElement_Cons [of t0 v0 t v env ro e es]
      person_last_name [of env] person_last_name_more [of env]
    by blast
qed

text \<open>The statement at a nil pointer to a string, with no path element and with one, and at
  the person, whose last name is such a pointer.\<close>

theorem C3_nil_pointer_witness:
  "read_pointers (TPtr TString) (VPtr None) = None
   \<and> returnPathElement example_lib (RValue (TPtr TString) (VPtr None) True) [] = Returns None
   \<and> returnPathElement example_lib (RValue (TPtr TString) (VPtr None) True) [''x''] = Fails errPathToLong
   \<and> getInterfaceOfValue (RValue (TPtr TString) (VPtr None) True) = Returns None
   \<and> read_pointers (TPtr person_t) (VPtr (Some person_v)) = Some (person_t, person_v)
   \<and> container person_t
   \<and> returnPathElement example_lib (RValue (TPtr person_t) (VPtr (Some person_v)) False) [''lastName'', ''x'']
        = returnPathElement example_lib (RValue (TPtr TString) (VPtr None) True) [''x'']"
proof -
  have 1: "read_pointers (TPtr TString) (VPtr None) = None"
    using C3_nil_pointer [of TString] by blast
  have 2: "returnPathElement example_lib (RValue (TPtr TString) (VPtr None) True) [] = Returns None"
    using 1 C3_nil_pointer [of TString _ "TPtr TString" "VPtr None" example_lib True "[]"] by simp
  have 3: "returnPathElement example_lib (RValue (TPtr TString) (VPtr None) True) [''x''] = Fails errPathToLong"
    using 1 C3_nil_pointer [of TString _ "TPtr TString" "VPtr None" example_lib True "[''x'']"] by simp
  have 4: "getInterfaceOfValue (RValue (TPtr TString) (VPtr None) True) = Returns None"
    using 1 C3_nil_pointer [of TString _ "TPtr TString" "VPtr None" example_lib True "[]"] by simp
  have 5: "container person_t" by (simp add: container_def person_t_def)
  have 6: "returnPathElement example_lib (RValue (TPtr person_t) (VPtr (Some person_v)) False) [''lastName'', ''x'']
        = returnPathElement example_lib (RValue (TPtr TString) (VPtr None) True) [''x'']"
    using person_read 5
      C3_nil_pointer [where ?t0.0 = "TPtr person_t" and ?v0.0 = "VPtr (Some person_v)"
        and t = person_t and v = person_v and env = example_lib and ro = False
        and e = "''lastName''" and es = "[''x'']"]
    by (simp add: locate_def person_t_def person_v_def IsExported_def rune_def)
  show ?thesis using 1 2 3 4 5 6 person_read by blast
qed

text \<open>
  C9. For a slice of bytes the resolution returns the slice header of the field itself
  (\<^verbatim>\<open>objValue.Bytes()\<close>): the result has the data pointer of the slice in the graph. The
  fingerprint of the person is returned with the data pointer 20, and after the assignment
  of 0 to the first byte of what was returned, the resolution of the same path in the graph
  gives 0 as the first byte of the fingerprint.
\<close>

theorem C9_byte_slice_shared:
  "(Kind t = KSlice \<and> Kind (Elem t) = KUint8 \<longrightarrow>
      getInterfaceOfValue (RValue t (VSlice a bs) ro) = Returns (Some (TSlice TUint8, VSlice a bs)))
   \<and> (i < length bs \<longrightarrow> poke a i x (VSlice a bs) = VSlice a ((map (poke a i x) bs)[i := x]))
   \<and> GetPathInterface env person ''fingerprint''
       = Returns (Some (TSlice TUint8, VSlice 20 [VUint 72, VUint 101, VUint 108, VUint 108, VUint 111]))
   \<and> GetPathInterface env (Some (TPtr person_t, poke 20 0 (VUint 0) (VPtr (Some person_v)))) ''fingerprint''
       = Returns (Some (TSlice TUint8, VSlice 20 [VUint 0, VUint 101, VUint 108, VUint 108, VUint 111]))"
proof -
  have 1: "Kind t = KSlice \<and> Kind (Elem t) = KUint8 \<longrightarrow>
      getInterfaceOfValue (RValue t (VSlice a bs) ro) = Returns (Some (TSlice TUint8, VSlice a bs))"
    by (simp add: getInterfaceOfValue_def read_pointers_id)
  have 2: "i < length bs \<longrightarrow> poke a i x (VSlice a bs) = VSlice a ((map (poke a i x) bs)[i := x])"
    by simp
  show ?thesis using 1 2 person_fingerprint [of env] person_poked_fingerprint [of env] by blast
qed

theorem C9_byte_slice_shared_witness:
  "Kind (TSlice TUint8) = KSlice \<and> Kind (Elem (TSlice TUint8)) = KUint8
   \<and> getInterfaceOfValue (RValue (TSlice TUint8) (VSlice 20 [VUint 72, VUint 101]) True)
        = Returns (Some (TSlice TUint8, VSlice 20 [VUint 72, VUint 101]))
   \<and> poke 20 0 (VUint 0) (VSlice 20 [VUint 72, VUint 101]) = VSlice 20 [VUint 0, VUint 101]"
  using C9_byte_slice_shared [of "TSlice TUint8" 20 "[VUint 72, VUint 101]" True 0 "VUint 0" example_lib]
  by simp

end
